theory Spec2Isabelle
  imports Complex_Main "HOL-Library.Sublist"
begin

section \<open>Intelephense server: file discovery, index coordinator and cache\<close>

text \<open>
  A shallow embedding of \<^verbatim>\<open>workspace.ts\<close>, \<^verbatim>\<open>cache.ts\<close> and the \<^verbatim>\<open>Indexer\<close>
  namespace of the server module. Promises are modelled by their outcome: a rejected
  promise or a thrown exception is \<open>Inl\<close> of the error, a resolved one is \<open>Inr\<close> of the
  value; where a promise may stay unsettled the outcome is optional, and \<open>None\<close> is the
  promise that is never settled. Everything outside the repository (the ECMAScript
  built-ins, Node's \<^verbatim>\<open>fs\<close> and \<^verbatim>\<open>path\<close>, fast-glob, micromatch, JSONStream, the symbol
  engine) is a parameter of the model or a definition marked as a library model.
\<close>

subsection \<open>Errors and strings\<close>

datatype js_error =
    TypeError
  | URIError
  | SyntaxError
  | InvalidJSON  \<comment> \<open>the error JSONStream emits on text that is not JSON\<close>
  | SystemError string  \<comment> \<open>a Node system error; the string is its \<^verbatim>\<open>code\<close>\<close>

text \<open>\<^verbatim>\<open>s.indexOf(c, i)\<close> for a one-character needle; \<open>None\<close> stands for \<^verbatim>\<open>-1\<close>.\<close>

fun index_of :: "char \<Rightarrow> string \<Rightarrow> nat option" where
  "index_of c [] = None"
| "index_of c (x # xs) = (if x = c then Some 0 else map_option Suc (index_of c xs))"

definition indexOf_from :: "char \<Rightarrow> nat \<Rightarrow> string \<Rightarrow> nat option" where
  "indexOf_from c i s = map_option (\<lambda>k. k + i) (index_of c (drop i s))"

text \<open>\<^verbatim>\<open>s.slice(a, b)\<close> and \<^verbatim>\<open>s.slice(a)\<close> for non-negative indices.\<close>

definition slice :: "nat \<Rightarrow> nat \<Rightarrow> string \<Rightarrow> string" where
  "slice a b s = take (b - a) (drop a s)"

definition slice_from :: "nat \<Rightarrow> string \<Rightarrow> string" where
  "slice_from a s = drop a s"

definition is_ascii_letter :: "char \<Rightarrow> bool" where
  "is_ascii_letter c =
     (let n = (of_char c :: nat) in (65 \<le> n \<and> n \<le> 90) \<or> (97 \<le> n \<and> n \<le> 122))"

text \<open>\<^verbatim>\<open>toLowerCase\<close> of one character; the source applies it to a character that
  matched \<^verbatim>\<open>[a-zA-Z]\<close> only.\<close>

definition toLowerCase_char :: "char \<Rightarrow> char" where
  "toLowerCase_char c =
     (let n = (of_char c :: nat) in if 65 \<le> n \<and> n \<le> 90 then char_of (n + 32) else c)"

text \<open>\<^verbatim>\<open>s.replace(/a/g, b)\<close> for single characters.\<close>

definition replace_all :: "char \<Rightarrow> char \<Rightarrow> string \<Rightarrow> string" where
  "replace_all a b s = map (\<lambda>c. if c = a then b else c) s"

definition backslash :: char where
  "backslash = CHR 0x5C"

subsection \<open>The platform: \<^verbatim>\<open>process.platform\<close> and the URI built-ins\<close>

text \<open>
  \<^verbatim>\<open>encodeURI\<close> and \<^verbatim>\<open>decodeURI\<close> are ECMAScript built-ins and parameters of the
  model. \<^verbatim>\<open>decodeURI\<close> throws a \<^verbatim>\<open>URIError\<close> on a malformed escape.
  \<^verbatim>\<open>encodeURI\<close> throws only on a lone surrogate; the strings of the model are
  well-formed text, on which it is total.
\<close>

record platform =
  isWindows :: bool
  encodeURI :: "string \<Rightarrow> string"
  decodeURI :: "string \<Rightarrow> js_error + string"

subsection \<open>\<^verbatim>\<open>LocalFileSystem.pathToUri\<close> and \<^verbatim>\<open>uriToPath\<close>\<close>

text \<open>\<^verbatim>\<open>SLASH_DRIVE_PATTERN = /^\/[a-zA-Z]:/\<close> and \<^verbatim>\<open>DRIVE_PATTERN = /^[a-zA-Z]:/\<close>.\<close>

fun SLASH_DRIVE_PATTERN :: "string \<Rightarrow> bool" where
  "SLASH_DRIVE_PATTERN (a # b # c # _) = (a = CHR ''/'' \<and> is_ascii_letter b \<and> c = CHR '':'')"
| "SLASH_DRIVE_PATTERN _ = False"

fun DRIVE_PATTERN :: "string \<Rightarrow> bool" where
  "DRIVE_PATTERN (a # b # _) = (is_ascii_letter a \<and> b = CHR '':'')"
| "DRIVE_PATTERN _ = False"

text \<open>The lower-casing of the drive letter in a path that matched \<^verbatim>\<open>SLASH_DRIVE_PATTERN\<close>:
  \<^verbatim>\<open>uriPath[0] + uriPath[1].toLowerCase() + uriPath.slice(2)\<close>.\<close>

fun lower_slash_drive :: "string \<Rightarrow> string" where
  "lower_slash_drive (a # b # rest) = a # toLowerCase_char b # rest"
| "lower_slash_drive s = s"

definition pathToUri :: "platform \<Rightarrow> string \<Rightarrow> string" where
  "pathToUri P filepath0 =
     (if filepath0 = [] then []
      else
        let filepath = (if isWindows P then replace_all backslash (CHR ''/'') filepath0
                        else filepath0)
        in
          if length filepath > 1 \<and> filepath ! 0 = CHR ''/'' \<and> filepath ! 1 = CHR ''/'' then
            (case indexOf_from (CHR ''/'') 2 filepath of
               None \<Rightarrow> encodeURI P (''file://'' @ slice_from 2 filepath @ ''/'')
             | Some i \<Rightarrow>
                 let uriAuth = slice 2 i filepath;
                     uriPath = slice_from i filepath;
                     uriPath' = (if SLASH_DRIVE_PATTERN uriPath then lower_slash_drive uriPath
                                 else uriPath)
                 in encodeURI P (''file://'' @ uriAuth @ uriPath'))
          else if filepath ! 0 = CHR ''/'' then encodeURI P (''file://'' @ filepath)
          else if DRIVE_PATTERN filepath then
            encodeURI P (''file://'' @ (CHR ''/'' # toLowerCase_char (filepath ! 0) # slice_from 1 filepath))
          else [])"

definition uriToPath :: "platform \<Rightarrow> string \<Rightarrow> js_error + string" where
  "uriToPath P uri =
     (case decodeURI P uri of
        Inl e \<Rightarrow> Inl e
      | Inr filepath0 \<Rightarrow>
          if slice 0 7 filepath0 \<noteq> ''file://'' then Inr []
          else if length filepath0 < 8 then Inr []
          else
            let filepath1 = slice_from 7 filepath0;
                filepath2 = (if SLASH_DRIVE_PATTERN filepath1 then slice_from 1 filepath1
                             else if filepath1 ! 0 \<noteq> CHR ''/'' then ''//'' @ filepath1
                             else filepath1)
            in Inr (if isWindows P then replace_all (CHR ''/'') backslash filepath2
                    else filepath2))"

text \<open>\<^verbatim>\<open>uriToPath(pathToUri(p))\<close>.\<close>

definition uri_roundtrip :: "platform \<Rightarrow> string \<Rightarrow> js_error + string" where
  "uri_roundtrip P p = uriToPath P (pathToUri P p)"

subsection \<open>An instance of the URI built-ins\<close>

text \<open>
  Library model (ECMA-262, \<^verbatim>\<open>encodeURI\<close> and \<^verbatim>\<open>decodeURI\<close>) on strings of code
  units below 256. \<^verbatim>\<open>encodeURI\<close> keeps the unreserved and the reserved characters
  and \<^verbatim>\<open>#\<close>, and writes every other one as the \<^verbatim>\<open>%XX\<close> escapes of its UTF-8
  bytes (one byte below 128, two from 128 on). \<^verbatim>\<open>decodeURI\<close> replaces an escape by
  its character unless that character is a reserved one or \<^verbatim>\<open>#\<close>, and throws on
  a malformed escape. An escaped UTF-8 sequence of a code point from 256 on has no
  character in this instance, which reports it as \<open>URIError\<close> too.
\<close>

definition uri_reserved :: "char set" where
  "uri_reserved = set '';/?:@&=+$,#''"

definition uri_unescaped :: "char \<Rightarrow> bool" where
  "uri_unescaped c =
     (let n = (of_char c :: nat) in
        (48 \<le> n \<and> n \<le> 57) \<or> is_ascii_letter c \<or> c \<in> set ''-_.!~*()'' \<or> n = 39
        \<or> c \<in> uri_reserved)"

definition hex_digit :: "nat \<Rightarrow> char" where
  "hex_digit n = ''0123456789ABCDEF'' ! (n mod 16)"

definition hex_value :: "char \<Rightarrow> nat option" where
  "hex_value c =
     (let n = (of_char c :: nat) in
        if 48 \<le> n \<and> n \<le> 57 then Some (n - 48)
        else if 65 \<le> n \<and> n \<le> 70 then Some (n - 55)
        else if 97 \<le> n \<and> n \<le> 102 then Some (n - 87)
        else None)"

definition percent_byte :: "nat \<Rightarrow> string" where
  "percent_byte b = [CHR ''%'', hex_digit (b div 16), hex_digit b]"

fun encodeURI_model :: "string \<Rightarrow> string" where
  "encodeURI_model [] = []"
| "encodeURI_model (c # cs) =
     (let n = (of_char c :: nat) in
        if uri_unescaped c then c # encodeURI_model cs
        else if n < 128 then percent_byte n @ encodeURI_model cs
        else percent_byte (192 + n div 64) @ percent_byte (128 + n mod 64) @ encodeURI_model cs)"

definition hex_byte :: "char \<Rightarrow> char \<Rightarrow> nat option" where
  "hex_byte h l =
     (case hex_value h of
        None \<Rightarrow> None
      | Some a \<Rightarrow> (case hex_value l of None \<Rightarrow> None | Some b \<Rightarrow> Some (a * 16 + b)))"

fun decodeURI_model :: "string \<Rightarrow> js_error + string" where
  "decodeURI_model [] = Inr []"
| "decodeURI_model (c # cs) =
     (if c \<noteq> CHR ''%'' then
        (case decodeURI_model cs of Inl e \<Rightarrow> Inl e | Inr r \<Rightarrow> Inr (c # r))
      else
        case cs of
          h # l # rest \<Rightarrow>
            (case hex_byte h l of
               None \<Rightarrow> Inl URIError
             | Some b \<Rightarrow>
                 if b < 128 then
                   (case decodeURI_model rest of
                      Inl e \<Rightarrow> Inl e
                    | Inr r \<Rightarrow>
                        if char_of b \<in> uri_reserved then Inr (c # h # l # r)
                        else Inr (char_of b # r))
                 else if b = 194 \<or> b = 195 then
                   (case rest of
                      p2 # h2 # l2 # rest2 \<Rightarrow>
                        if p2 \<noteq> CHR ''%'' then Inl URIError
                        else
                          (case hex_byte h2 l2 of
                             None \<Rightarrow> Inl URIError
                           | Some b2 \<Rightarrow>
                               if 128 \<le> b2 \<and> b2 < 192 then
                                 (case decodeURI_model rest2 of
                                    Inl e \<Rightarrow> Inl e
                                  | Inr r \<Rightarrow> Inr (char_of ((b - 192) * 64 + (b2 - 128)) # r))
                               else Inl URIError)
                    | _ \<Rightarrow> Inl URIError)
                 else Inl URIError)
        | _ \<Rightarrow> Inl URIError)"

definition posix_host :: platform where
  "posix_host = \<lparr> isWindows = False, encodeURI = encodeURI_model, decodeURI = decodeURI_model \<rparr>"

definition win32_host :: platform where
  "win32_host = \<lparr> isWindows = True, encodeURI = encodeURI_model, decodeURI = decodeURI_model \<rparr>"

subsection \<open>Node's \<^verbatim>\<open>path\<close> module (POSIX)\<close>

text \<open>
  Library model of \<^verbatim>\<open>path.join\<close> and \<^verbatim>\<open>path.normalize\<close> of Node on a POSIX
  platform: the non-empty arguments are joined with \<^verbatim>\<open>/\<close> and the result is
  normalised (empty and \<^verbatim>\<open>.\<close> segments dropped, \<^verbatim>\<open>..\<close> resolved against the
  segment before it, a trailing separator kept).
\<close>

fun split_on :: "char \<Rightarrow> string \<Rightarrow> string list" where
  "split_on c [] = [[]]"
| "split_on c (x # xs) =
     (if x = c then [] # split_on c xs
      else case split_on c xs of
             [] \<Rightarrow> [[x]]
           | s # ss \<Rightarrow> (x # s) # ss)"

fun join_with :: "string \<Rightarrow> string list \<Rightarrow> string" where
  "join_with sep [] = []"
| "join_with sep [s] = s"
| "join_with sep (s # t # ss) = s @ sep @ join_with sep (t # ss)"

text \<open>\<^verbatim>\<open>normalizeString\<close>: the accumulator holds the segments kept so far, last first.\<close>

fun normalize_segments :: "bool \<Rightarrow> string list \<Rightarrow> string list \<Rightarrow> string list" where
  "normalize_segments allowAboveRoot [] acc = rev acc"
| "normalize_segments allowAboveRoot (s # ss) acc =
     (if s = [] then normalize_segments allowAboveRoot ss acc
      else if s = ''.'' then normalize_segments allowAboveRoot ss acc
      else if s = ''..'' then
        (case acc of
           [] \<Rightarrow> normalize_segments allowAboveRoot ss (if allowAboveRoot then [''..''] else [])
         | a # as \<Rightarrow>
             if a = ''..'' then
               normalize_segments allowAboveRoot ss (if allowAboveRoot then s # acc else acc)
             else normalize_segments allowAboveRoot ss as)
      else normalize_segments allowAboveRoot ss (s # acc))"

definition path_normalize :: "string \<Rightarrow> string" where
  "path_normalize p =
     (if p = [] then ''.''
      else
        let isAbsolute = (hd p = CHR ''/'');
            trailingSeparator = (last p = CHR ''/'');
            body = join_with ''/'' (normalize_segments (\<not> isAbsolute) (split_on (CHR ''/'') p) [])
        in
          if body = [] then
            (if isAbsolute then ''/'' else if trailingSeparator then ''./'' else ''.'')
          else
            (if isAbsolute then ''/'' else []) @ body @ (if trailingSeparator then ''/'' else []))"

definition path_join :: "string \<Rightarrow> string \<Rightarrow> string" where
  "path_join a b =
     (if a = [] \<and> b = [] then ''.''
      else path_normalize (join_with ''/'' (filter (\<lambda>s. s \<noteq> []) [a, b])))"

subsection \<open>The file system\<close>

text \<open>
  The file system as the cache sees it: a partial map from a path, as it is written, to
  a node. A node is a directory, a readable file with its content, or a file whose
  reading delivers some data and then fails with a system error code (for example
  \<^verbatim>\<open>EACCES\<close> or \<^verbatim>\<open>EIO\<close>).
\<close>

datatype fnode = Dir | File string | Unreadable string string

type_synonym filesystem = "string \<Rightarrow> fnode option"

text \<open>What \<^verbatim>\<open>fs.createReadStream(file)\<close> delivers: the data piped on, and the payload
  of its \<^verbatim>\<open>error\<close> event if it emits one. A missing file fails with
  \<^verbatim>\<open>ENOENT\<close> before any data, a directory with \<^verbatim>\<open>EISDIR\<close>.\<close>

definition createReadStream :: "filesystem \<Rightarrow> string \<Rightarrow> string \<times> js_error option" where
  "createReadStream fs file =
     (case fs file of
        None \<Rightarrow> ([], Some (SystemError ''ENOENT''))
      | Some Dir \<Rightarrow> ([], Some (SystemError ''EISDIR''))
      | Some (File content) \<Rightarrow> (content, None)
      | Some (Unreadable delivered c) \<Rightarrow> (delivered, Some (SystemError c)))"

text \<open>\<^verbatim>\<open>err.code\<close>: only a system error has one.\<close>

fun error_code :: "js_error \<Rightarrow> string option" where
  "error_code (SystemError c) = Some c"
| "error_code _ = None"

text \<open>\<^verbatim>\<open>path.dirname\<close> of a normalised path.\<close>

definition path_dirname :: "string \<Rightarrow> string" where
  "path_dirname p =
     (case indexOf_from (CHR ''/'') 0 (rev p) of
        None \<Rightarrow> ''.''
      | Some k \<Rightarrow> (if k + 1 = length p then ''/'' else take (length p - k - 1) p))"

text \<open>The error with which \<^verbatim>\<open>fs.createWriteStream(file)\<close> fails to open \<open>file\<close>,
  if it does: the target is a directory, or its parent is not one.\<close>

definition open_for_write_error :: "filesystem \<Rightarrow> string \<Rightarrow> js_error option" where
  "open_for_write_error fs file =
     (if fs file = Some Dir then Some (SystemError ''EISDIR'')
      else case fs (path_dirname file) of
             Some Dir \<Rightarrow> None
           | None \<Rightarrow> Some (SystemError ''ENOENT'')
           | Some _ \<Rightarrow> Some (SystemError ''ENOTDIR''))"

text \<open>\<^verbatim>\<open>fs.remove(p)\<close> of fs-extra: removes a file, or a directory with everything
  under it; a missing path is not an error.\<close>

definition is_under :: "string \<Rightarrow> string \<Rightarrow> bool" where
  "is_under p q = (q = p \<or> prefix (p @ ''/'') q)"

definition fs_remove :: "filesystem \<Rightarrow> string \<Rightarrow> filesystem" where
  "fs_remove fs p = (\<lambda>q. if is_under p q then None else fs q)"

text \<open>\<^verbatim>\<open>fs.unlink(p)\<close>: removes a file; fails on a missing path or a directory.\<close>

definition fs_unlink :: "filesystem \<Rightarrow> string \<Rightarrow> js_error + filesystem" where
  "fs_unlink fs p =
     (case fs p of
        None \<Rightarrow> Inl (SystemError ''ENOENT'')
      | Some Dir \<Rightarrow> Inl (SystemError ''EISDIR'')
      | Some _ \<Rightarrow> Inr (fs(p := None)))"

text \<open>\<^verbatim>\<open>fs.ensureDir(p)\<close> of fs-extra: makes \<open>p\<close> a directory unless a file is in
  the way.\<close>

definition fs_ensureDir :: "filesystem \<Rightarrow> string \<Rightarrow> js_error + filesystem" where
  "fs_ensureDir fs p =
     (case fs p of
        None \<Rightarrow> Inr (fs(p \<mapsto> Dir))
      | Some Dir \<Rightarrow> Inr fs
      | Some _ \<Rightarrow> Inl (SystemError ''EEXIST''))"

subsection \<open>\<^verbatim>\<open>cache.ts\<close>: the class \<^verbatim>\<open>Cache\<close>\<close>

text \<open>
  The cache is modelled on the file system above; its calls of \<^verbatim>\<open>Log\<close> are left out.
  JSONStream is a parameter: \<open>stringify op sep cl data\<close> is what the transform stream
  \<^verbatim>\<open>jsonstream.stringify(op, sep, cl)\<close> emits for the records written to it (the
  first error it emits, and the bytes it pipes on); \<open>parse pattern data ended\<close> is
  what \<^verbatim>\<open>jsonstream.parse(pattern)\<close> emits for the data piped into it, followed or not
  by the end of the stream (the items of its \<^verbatim>\<open>data\<close> events, and the first error it
  emits).
\<close>

record 'a jsonstream =
  stringify :: "string \<Rightarrow> string \<Rightarrow> string \<Rightarrow> 'a list \<Rightarrow> js_error option \<times> string"
  parse :: "string \<Rightarrow> string \<Rightarrow> bool \<Rightarrow> 'a list \<times> js_error option"

text \<open>The parser behind the pipe: a parser that was written nothing and was not ended
  has emitted nothing.\<close>

definition piped_parse ::
  "'a jsonstream \<Rightarrow> string \<Rightarrow> string \<Rightarrow> bool \<Rightarrow> 'a list \<times> js_error option" where
  "piped_parse J pattern delivered ended =
     (if delivered = [] \<and> \<not> ended then ([], None) else parse J pattern delivered ended)"

record Cache =
  dir :: string

definition pathFromKey :: "Cache \<Rightarrow> string \<Rightarrow> string" where
  "pathFromKey this key = path_join (dir this) (key @ ''.json'')"

text \<open>
  \<^verbatim>\<open>put\<close>: the promise is settled by the first of the transform stream's error (raised
  while the records are written, before the write stream opens the file), the write
  stream's error, and the write stream's \<^verbatim>\<open>finish\<close>. The file holds the bytes piped
  on when the write stream could open it.
\<close>

definition Cache_put ::
  "'a jsonstream \<Rightarrow> filesystem \<Rightarrow> Cache \<Rightarrow> string \<Rightarrow> 'a list \<Rightarrow> (js_error + unit) \<times> filesystem" where
  "Cache_put J fs this key data =
     (let file = pathFromKey this key;
          (transformError, bytes) = stringify J ''['' '','' '']'' data;
          writeError = open_for_write_error fs file
      in
        (case transformError of
           Some e \<Rightarrow> Inl e
         | None \<Rightarrow> (case writeError of Some e \<Rightarrow> Inl e | None \<Rightarrow> Inr ()),
         case writeError of Some e \<Rightarrow> fs | None \<Rightarrow> fs(file \<mapsto> File bytes)))"

text \<open>
  \<^verbatim>\<open>get\<close> (its second parameter \<^verbatim>\<open>useStream\<close> is not used by the source): the read
  stream ends the parser only when it ends without an error. The
  parser's error is raised while the data is piped through, so before the read
  stream's own error. The read stream's error handler rejects unless the code is
  \<^verbatim>\<open>ENOENT\<close>, and resolves with the items seen so far otherwise.
\<close>

definition Cache_get ::
  "'a jsonstream \<Rightarrow> filesystem \<Rightarrow> Cache \<Rightarrow> string \<Rightarrow> js_error + 'a list" where
  "Cache_get J fs this key =
     (let file = pathFromKey this key;
          (delivered, readError) = createReadStream fs file;
          (items, parseError) = piped_parse J ''*'' delivered (readError = None)
      in
        case parseError of
          Some e \<Rightarrow> Inl e
        | None \<Rightarrow>
            (case readError of
               None \<Rightarrow> Inr items
             | Some err \<Rightarrow>
                 if error_code err \<noteq> Some ''ENOENT'' then Inl err else Inr items))"

definition Cache_del :: "filesystem \<Rightarrow> Cache \<Rightarrow> string \<Rightarrow> js_error + filesystem" where
  "Cache_del fs this key = fs_unlink fs (pathFromKey this key)"

definition Cache_dispose :: "filesystem \<Rightarrow> Cache \<Rightarrow> filesystem" where
  "Cache_dispose fs this = fs_remove fs (pathFromKey this (dir this))"

text \<open>\<^verbatim>\<open>Cache.create\<close>: \<open>None\<close> is the \<^verbatim>\<open>undefined\<close> it resolves to after the warning.\<close>

definition Cache_create :: "filesystem \<Rightarrow> string \<Rightarrow> Cache option \<times> filesystem" where
  "Cache_create fs path =
     (case fs_ensureDir fs path of
        Inl e \<Rightarrow> (None, fs)
      | Inr fs' \<Rightarrow> (Some \<lparr> dir = path \<rparr>, fs'))"

subsection \<open>\<^verbatim>\<open>workspace.ts\<close>: data\<close>

record FileInfo =
  uri :: string
  modified :: int
  sizeBytes :: int  \<comment> \<open>the field \<^verbatim>\<open>size\<close>\<close>

record Folder =
  folderUri :: string  \<comment> \<open>the field \<^verbatim>\<open>uri\<close>\<close>
  folderName :: string  \<comment> \<open>the field \<^verbatim>\<open>name\<close>\<close>

record FastGlobEntry =
  entryPath :: string  \<comment> \<open>\<^verbatim>\<open>path\<close>\<close>
  entryMtime :: int  \<comment> \<open>\<^verbatim>\<open>mtime.getTime()\<close>\<close>
  entrySize :: int  \<comment> \<open>\<^verbatim>\<open>size\<close>\<close>

record TextDocumentItem =
  docUri :: string
  languageId :: string
  docText :: string
  docVersion :: int

text \<open>The options the source passes to \<^verbatim>\<open>fg.async\<close>, apart from \<^verbatim>\<open>stats: true\<close> and
  the transform, which are the same in both calls.\<close>

record fg_options =
  cwd :: string
  ignore :: "string list"
  matchBase :: bool

text \<open>What \<^verbatim>\<open>JSON.parse\<close> gives for a composer manifest, as far as the source looks at
  it: \<^verbatim>\<open>null\<close> (on which a property access throws), or a value with, for each of
  \<^verbatim>\<open>require\<close> and \<^verbatim>\<open>require-dev\<close>, \<open>None\<close> when the property is falsy and the
  \<^verbatim>\<open>Object.keys\<close> of its value otherwise.\<close>

datatype composer_json =
    JsonNull
  | JsonValue (requireKeys: "string list option") (requireDevKeys: "string list option")

datatype log_entry =
    Warn js_error  \<comment> \<open>\<^verbatim>\<open>Log.warn(e.toString())\<close>\<close>
  | WarnOverMaxSize string  \<comment> \<open>\<^verbatim>\<open>Log.warn(`${uri} not opened -- over max file size.`)\<close>\<close>

text \<open>What a function of \<^verbatim>\<open>workspace.ts\<close> reaches outside the repository.\<close>

text \<open>\<open>fs_stat\<close> gives the modification time and the size of \<^verbatim>\<open>fs.stat(path)\<close>;
  \<open>micromatch list patterns ignore\<close> is \<^verbatim>\<open>micromatch(list, patterns, {ignore})\<close>.\<close>

record host =
  platform :: platform
  fs_readFile :: "string \<Rightarrow> js_error + string"
  fs_stat :: "string \<Rightarrow> js_error + int \<times> int"
  fg_async :: "string list \<Rightarrow> fg_options \<Rightarrow> js_error + FastGlobEntry list"
  micromatch :: "string list \<Rightarrow> string list \<Rightarrow> string list \<Rightarrow> string list"
  JSON_parse :: "string \<Rightarrow> js_error + composer_json"

text \<open>The \<^verbatim>\<open>this\<close> of a function call: \<^verbatim>\<open>undefined\<close> for a plain call \<^verbatim>\<open>f(...)\<close> in
  strict mode (both files start with \<^verbatim>\<open>'use strict'\<close>), or an object of which the
  model keeps the properties \<^verbatim>\<open>uri\<close> and \<^verbatim>\<open>associations\<close>, when it has them.\<close>

datatype this_binding = ThisUndefined | ThisObject "string option" "string list option"

text \<open>\<^verbatim>\<open>this.uri\<close> passed to a function that takes a string: a \<^verbatim>\<open>TypeError\<close> on
  \<^verbatim>\<open>undefined\<close>; a missing property is \<^verbatim>\<open>undefined\<close>, which \<^verbatim>\<open>decodeURI\<close> turns
  into the string \<^verbatim>\<open>undefined\<close>.\<close>

fun this_uri :: "this_binding \<Rightarrow> js_error + string" where
  "this_uri ThisUndefined = Inl TypeError"
| "this_uri (ThisObject None a) = Inr ''undefined''"
| "this_uri (ThisObject (Some u) a) = Inr u"


definition VENDOR_TESTS_GLOB :: string where
  "VENDOR_TESTS_GLOB = ''**/{test,tests,Test,Tests}/**''"

definition uriScheme :: "string \<Rightarrow> string" where
  "uriScheme u = (case indexOf_from (CHR '':'') 0 u of Some colonPos \<Rightarrow> slice 0 colonPos u | None \<Rightarrow> [])"

text \<open>\<^verbatim>\<open>schemeFileSystemProvider(scheme)\<close> is \<^verbatim>\<open>LocalFileSystem\<close> for \<^verbatim>\<open>file\<close> and
  \<^verbatim>\<open>undefined\<close> otherwise.\<close>

definition hasFileSystemProvider :: "string \<Rightarrow> bool" where
  "hasFileSystemProvider scheme = (scheme = ''file'')"

subsection \<open>The namespace \<^verbatim>\<open>Workspace\<close>\<close>

text \<open>\<^verbatim>\<open>folders\<close> is an object keyed by uri; its keys are enumerated in insertion
  order, so it is an association list.\<close>

type_synonym folders = "(string \<times> Folder) list"

definition addFolder :: "folders \<Rightarrow> Folder \<Rightarrow> folders" where
  "addFolder fds folder =
     (let u = (if folderUri folder = [] then ''/''
               else if last (folderUri folder) \<noteq> CHR ''/'' then folderUri folder @ ''/''
               else folderUri folder);
          folder' = folder\<lparr> folderUri := u \<rparr>
      in if u \<in> fst ` set fds then map (\<lambda>(k, v). if k = u then (k, folder') else (k, v)) fds
         else fds @ [(u, folder')])"

definition removeFolder :: "folders \<Rightarrow> Folder \<Rightarrow> folders" where
  "removeFolder fds folder = filter (\<lambda>(k, v). k \<noteq> folderUri folder) fds"

definition folderArray :: "folders \<Rightarrow> Folder list" where
  "folderArray fds = map snd fds"

text \<open>\<^verbatim>\<open>LocalFileSystem.readFile\<close>: \<^verbatim>\<open>uriToPath\<close> throws before the promise exists.\<close>

definition LocalFileSystem_readFile :: "host \<Rightarrow> string \<Rightarrow> js_error + (js_error + string)" where
  "LocalFileSystem_readFile H u =
     (case uriToPath (platform H) u of
        Inl e \<Rightarrow> Inl e
      | Inr p \<Rightarrow> Inr (fs_readFile H p))"

text \<open>\<^verbatim>\<open>Workspace.getDocument\<close>: the outer sum is an exception thrown by the call itself,
  the option the \<^verbatim>\<open>undefined\<close> it resolves to when there is no provider or the read
  fails. With the document come the path read, if one was, and the warnings.\<close>

definition getDocument ::
  "host \<Rightarrow> string \<Rightarrow> js_error + (TextDocumentItem option \<times> string option \<times> log_entry list)" where
  "getDocument H u =
     (if \<not> hasFileSystemProvider (uriScheme u) then Inr (None, None, [])
      else case uriToPath (platform H) u of
             Inl e \<Rightarrow> Inl e
           | Inr p \<Rightarrow>
               (case fs_readFile H p of
                  Inr data \<Rightarrow>
                    Inr (Some \<lparr> docUri = u, languageId = ''php'', docText = data, docVersion = 0 \<rparr>,
                         Some p, [])
                | Inl e \<Rightarrow> Inr (None, Some p, [Warn e])))"

subsection \<open>The namespace \<^verbatim>\<open>FileSearchProvider\<close>\<close>

definition isFileGlob :: "string \<Rightarrow> bool" where
  "isFileGlob glob = (indexOf_from (CHR ''/'') 0 glob = None)"

text \<open>The filter of \<^verbatim>\<open>vendorGlobs\<close>: a package passes when the guard does not hold it
  yet, and is added to the guard.\<close>

fun guard_filter :: "string list \<Rightarrow> string set \<Rightarrow> string list \<times> string set" where
  "guard_filter [] vendorGuard = ([], vendorGuard)"
| "guard_filter (v # vs) vendorGuard =
     (if v \<in> vendorGuard then guard_filter vs vendorGuard
      else let (rest, g) = guard_filter vs (insert v vendorGuard) in (v # rest, g))"

definition vendorGlobs ::
  "string list \<Rightarrow> string list \<Rightarrow> string set \<Rightarrow> string list \<times> string set" where
  "vendorGlobs packages associations vendorGuard =
     (let bracedFilePattern = ''{'' @ join_with '','' (filter isFileGlob associations) @ ''}'';
          (kept, g) = guard_filter packages vendorGuard
      in (map (\<lambda>v. v @ ''/**/'' @ bracedFilePattern) kept, g))"

text \<open>The body of the \<^verbatim>\<open>try\<close> in \<^verbatim>\<open>readComposerPackages\<close>.\<close>

definition composer_packages :: "host \<Rightarrow> string \<Rightarrow> js_error + string list" where
  "composer_packages H data =
     (case JSON_parse H data of
        Inl e \<Rightarrow> Inl e
      | Inr JsonNull \<Rightarrow> Inl TypeError
      | Inr (JsonValue req dev) \<Rightarrow>
          Inr ((case req of None \<Rightarrow> [] | Some ks \<Rightarrow> ks) @ (case dev of None \<Rightarrow> [] | Some ks \<Rightarrow> ks)))"

definition readComposerPackages ::
  "host \<Rightarrow> string \<Rightarrow> js_error + (string list \<times> log_entry list)" where
  "readComposerPackages H composerJsonUri =
     (if \<not> hasFileSystemProvider (uriScheme composerJsonUri) then Inr ([], [])
      else case LocalFileSystem_readFile H composerJsonUri of
             Inl e \<Rightarrow> Inl e
           | Inr (Inr data) \<Rightarrow>
               (case composer_packages H data of
                  Inr items \<Rightarrow> Inr (items, [])
                | Inl e \<Rightarrow> Inr ([], [Warn e]))
           | Inr (Inl e) \<Rightarrow>
               Inr ([], if error_code e \<noteq> Some ''ENOENT'' then [Warn e] else []))"

definition findFilesTransform :: "platform \<Rightarrow> FastGlobEntry \<Rightarrow> FileInfo" where
  "findFilesTransform P entry =
     \<lparr> uri = pathToUri P (entryPath entry), modified = entryMtime entry, sizeBytes = entrySize entry \<rparr>"

text \<open>\<^verbatim>\<open>fg.async(globs, {..., transform: findFilesTransform}).catch(...)\<close>.\<close>

definition fg_search :: "host \<Rightarrow> string list \<Rightarrow> fg_options \<Rightarrow> FileInfo list \<times> log_entry list" where
  "fg_search H globs opts =
     (case fg_async H globs opts of
        Inl e \<Rightarrow> ([], [Warn e])
      | Inr entries \<Rightarrow> (map (findFilesTransform (platform H)) entries, []))"

text \<open>The first pass of \<^verbatim>\<open>findFilesInFolder\<close> when \<^verbatim>\<open>useComposerJson\<close> holds.\<close>

definition vendor_pass ::
  "host \<Rightarrow> string \<Rightarrow> string \<Rightarrow> string list \<Rightarrow> string set
     \<Rightarrow> js_error + (FileInfo list \<times> string set \<times> log_entry list)" where
  "vendor_pass H folder_uri cwd_path associations vendorGuard =
     (case readComposerPackages H (folder_uri @ ''composer.json'') of
        Inl e \<Rightarrow> Inl e
      | Inr (packages, lg) \<Rightarrow>
          if length packages < 1 then Inr ([], vendorGuard, lg)
          else
            let (globs, g) = vendorGlobs packages associations vendorGuard;
                (found, lg') =
                  fg_search H globs
                    \<lparr> cwd = path_join cwd_path ''vendor'', ignore = [VENDOR_TESTS_GLOB],
                      matchBase = False \<rparr>
            in Inr (found, g, lg @ lg'))"

text \<open>\<^verbatim>\<open>findFilesInFolder\<close>. The source computes the working directory from
  \<^verbatim>\<open>this.uri\<close>, so the \<^verbatim>\<open>this\<close> of the call is an argument of the model.\<close>

definition findFilesInFolder ::
  "host \<Rightarrow> this_binding \<Rightarrow> string \<Rightarrow> string list \<Rightarrow> string list \<Rightarrow> bool \<Rightarrow> string set
     \<Rightarrow> js_error + (FileInfo list \<times> string set \<times> log_entry list)" where
  "findFilesInFolder H this folder_uri associations exclude useComposerJson vendorGuard =
     (if uriScheme folder_uri \<noteq> ''file'' then Inr ([], vendorGuard, [])
      else
        case this_uri this of
          Inl e \<Rightarrow> Inl e
        | Inr u \<Rightarrow>
            (case uriToPath (platform H) u of
               Inl e \<Rightarrow> Inl e
             | Inr cwd_path \<Rightarrow>
                 (case (if useComposerJson
                        then vendor_pass H folder_uri cwd_path associations vendorGuard
                        else Inr ([], vendorGuard, [])) of
                    Inl e \<Rightarrow> Inl e
                  | Inr (vendorFiles, g, lg) \<Rightarrow>
                      let ignore_globs = exclude @ (if useComposerJson then [''vendor/**''] else []);
                          (srcFiles, lg') =
                            fg_search H associations
                              \<lparr> cwd = cwd_path, ignore = ignore_globs, matchBase = True \<rparr>
                      in Inr (vendorFiles @ srcFiles, g, lg @ lg'))))"

text \<open>The loop of \<^verbatim>\<open>FileSearchProvider.findFiles\<close>; it calls
  \<^verbatim>\<open>findFilesInFolder(folders[n].uri, ...)\<close> plainly, so with an undefined \<^verbatim>\<open>this\<close>.\<close>

fun findFiles_loop ::
  "host \<Rightarrow> Folder list \<Rightarrow> string list \<Rightarrow> string list \<Rightarrow> bool \<Rightarrow> string set
     \<Rightarrow> js_error + (FileInfo list \<times> log_entry list)" where
  "findFiles_loop H [] associations exclude useComposerJson vendorGuard = Inr ([], [])"
| "findFiles_loop H (f # fs) associations exclude useComposerJson vendorGuard =
     (case findFilesInFolder H ThisUndefined (folderUri f) associations exclude useComposerJson
             vendorGuard of
        Inl e \<Rightarrow> Inl e
      | Inr (found, g, lg) \<Rightarrow>
          (case findFiles_loop H fs associations exclude useComposerJson g of
             Inl e \<Rightarrow> Inl e
           | Inr (rest, lg') \<Rightarrow> Inr (found @ rest, lg @ lg')))"

definition FileSearchProvider_findFiles ::
  "host \<Rightarrow> Folder list \<Rightarrow> string list \<Rightarrow> string list \<Rightarrow> bool
     \<Rightarrow> js_error + (FileInfo list \<times> log_entry list)" where
  "FileSearchProvider_findFiles H fds associations exclude useComposerJson =
     findFiles_loop H fds associations exclude useComposerJson {}"

definition Workspace_findFiles ::
  "host \<Rightarrow> folders \<Rightarrow> string list \<Rightarrow> string list \<Rightarrow> bool
     \<Rightarrow> js_error + (FileInfo list \<times> log_entry list)" where
  "Workspace_findFiles H fds associations exclude useComposerJson =
     FileSearchProvider_findFiles H (folderArray fds) associations exclude useComposerJson"








subsection \<open>The server module: configuration and state\<close>

text \<open>The settings \<^verbatim>\<open>getConfigValue\<close> is asked for; \<open>None\<close> is a setting the client's
  configuration does not define (or no configuration at all), for which
  \<^verbatim>\<open>getConfigValue\<close> returns the default of the call.\<close>

record ServerConfig =
  files_maxSize :: "int option"
  files_associations :: "string list option"
  files_exclude :: "string list option"
  indexer_useComposerJson :: "bool option"

definition getConfigValue :: "'a option \<Rightarrow> 'a \<Rightarrow> 'a" where
  "getConfigValue val defaultValue = (case val of Some v \<Rightarrow> v | None \<Rightarrow> defaultValue)"

record IndexResult =
  totalFileCount :: nat
  indexedFileCount :: nat
  forgottenFileCount :: nat
  symbolCount :: int
  elapsed :: real
  wasCancelled :: "bool option"  \<comment> \<open>the optional field: \<open>None\<close> when it was never set\<close>

text \<open>
  The module-level state: the folders of \<^verbatim>\<open>Workspace\<close>, the configuration, and the
  variable \<^verbatim>\<open>indexing\<close> of \<^verbatim>\<open>Indexer\<close>. A \<^verbatim>\<open>CancellationTokenSource\<close> is an object
  with identity: \<open>sources\<close> holds, for every source created so far, whether it was
  cancelled, and \<open>indexing\<close> is the index of the current one, or \<open>None\<close> for
  \<^verbatim>\<open>undefined\<close>.
\<close>

record server_state =
  workspaceFolders :: folders
  config :: ServerConfig
  indexing :: "nat option"
  sources :: "bool list"

text \<open>What the indexer reaches outside the repository: the host of \<^verbatim>\<open>workspace.ts\<close>,
  the symbol engine, the clock, and the other handlers of the server. A run is
  suspended at every \<^verbatim>\<open>await\<close>; \<open>cancelAfter = Some k\<close> says that while the run is
  suspended for the \<open>k\<close>-th time, another handler calls \<^verbatim>\<open>Indexer.cancelIndexing()\<close>,
  and \<open>None\<close> that none ever does.\<close>

record environment =
  host :: host
  knownDocuments :: "string list \<times> int"  \<comment> \<open>\<^verbatim>\<open>documents\<close> and \<^verbatim>\<open>timestamp\<close>\<close>
  discoverSymbols :: "TextDocumentItem option \<Rightarrow> int"
  hrtime_diff :: "nat \<times> nat"  \<comment> \<open>\<^verbatim>\<open>process.hrtime(start)\<close> at the end of the run\<close>
  cancelAfter :: "nat option"

datatype event =
    KnownDocuments
  | FindFiles "string list" "string list" bool
  | FilterFiles "string list" "string list" "string list" bool
  | ReadFile string
  | DiscoverSymbols "TextDocumentItem option"
  | Forget string
  | Log log_entry

text \<open>\<^verbatim>\<open>elapsed(start)\<close>, in milliseconds.\<close>

definition elapsed_ms :: "nat \<times> nat \<Rightarrow> real" where
  "elapsed_ms d = real (fst d) * 1000 + real (snd d) / 1000000"

text \<open>\<^verbatim>\<open>new Set(xs)\<close> enumerated: the elements in the order of their first occurrence.\<close>

definition set_of_array :: "'a list \<Rightarrow> 'a list" where
  "set_of_array xs = rev (remdups (rev xs))"

subsection \<open>The namespace \<^verbatim>\<open>Indexer\<close>\<close>

definition isIndexing :: "server_state \<Rightarrow> bool" where
  "isIndexing s = (indexing s \<noteq> None)"

text \<open>\<^verbatim>\<open>cancelIndexing\<close>; \<^verbatim>\<open>dispose()\<close> releases the source's listeners and leaves
  nothing to observe.\<close>

definition cancelIndexing :: "server_state \<Rightarrow> server_state" where
  "cancelIndexing s =
     (case indexing s of
        None \<Rightarrow> s
      | Some i \<Rightarrow> s\<lparr> sources := (sources s)[i := True], indexing := None \<rparr>)"

text \<open>A run in progress: the module state, the number of times the run was suspended,
  the effects so far (oldest first), and the locals \<^verbatim>\<open>known\<close> and \<^verbatim>\<open>result\<close>.\<close>

record run =
  state :: server_state
  awaits :: nat
  trace :: "event list"
  known :: "string list"
  result :: IndexResult

text \<open>The run is suspended at an \<^verbatim>\<open>await\<close> and resumed.\<close>

definition suspend :: "environment \<Rightarrow> run \<Rightarrow> run" where
  "suspend E r =
     r\<lparr> awaits := Suc (awaits r),
        state := (if cancelAfter E = Some (Suc (awaits r)) then cancelIndexing (state r)
                  else state r) \<rparr>"

definition emit :: "event list \<Rightarrow> run \<Rightarrow> run" where
  "emit evs r = r\<lparr> trace := trace r @ evs \<rparr>"

text \<open>\<^verbatim>\<open>token.isCancellationRequested\<close> for the token of source \<open>tok\<close>.\<close>

definition isCancellationRequested :: "nat \<Rightarrow> run \<Rightarrow> bool" where
  "isCancellationRequested tok r =
     (case drop tok (sources (state r)) of [] \<Rightarrow> False | b # _ \<Rightarrow> b)"

text \<open>\<^verbatim>\<open>doc = await Workspace.getDocument(file.uri); if (doc) { ... await discover(doc) }\<close>:
  the end of one iteration of the loop of \<^verbatim>\<open>indexWorkspace\<close>. An error is an
  exception that leaves the loop.\<close>

definition index_document :: "environment \<Rightarrow> FileInfo \<Rightarrow> run \<Rightarrow> js_error option \<times> run" where
  "index_document E file r =
     (case getDocument (host E) (uri file) of
        Inl e \<Rightarrow> (Some e, r)
      | Inr (doc, path_read, lg) \<Rightarrow>
          let r1 = suspend E
                     (emit ((case path_read of None \<Rightarrow> [] | Some p \<Rightarrow> [ReadFile p]) @ map Log lg) r)
          in (case doc of
                None \<Rightarrow> (None, r1)
              | Some d \<Rightarrow>
                  (let r2 = r1\<lparr> result := (result r1)\<lparr> indexedFileCount := indexedFileCount (result r1) + 1 \<rparr> \<rparr>;
                       n = discoverSymbols E (Some d);
                       r3 = suspend E (emit [DiscoverSymbols (Some d)] r2)
                   in (None, r3\<lparr> result := (result r3)\<lparr> symbolCount := symbolCount (result r2) + n \<rparr> \<rparr>))))"

text \<open>The body of the loop of \<^verbatim>\<open>indexWorkspace\<close> for one file.\<close>

definition index_file ::
  "environment \<Rightarrow> int \<Rightarrow> int \<Rightarrow> FileInfo \<Rightarrow> run \<Rightarrow> js_error option \<times> run" where
  "index_file E timestamp maxFileSize file r =
     (if uri file \<in> set (known r) then
        let r1 = r\<lparr> known := removeAll (uri file) (known r) \<rparr>
        in if modified file < timestamp then (None, r1)
           else index_document E file r1
      else if sizeBytes file > maxFileSize then
        (None, emit [Log (WarnOverMaxSize (uri file))] r)
      else index_document E file r)"

text \<open>\<^verbatim>\<open>for (n = 0; n < l && !token.isCancellationRequested; ++n)\<close>.\<close>

fun index_loop ::
  "environment \<Rightarrow> nat \<Rightarrow> int \<Rightarrow> int \<Rightarrow> FileInfo list \<Rightarrow> run \<Rightarrow> js_error option \<times> run" where
  "index_loop E tok timestamp maxFileSize [] r = (None, r)"
| "index_loop E tok timestamp maxFileSize (file # files) r =
     (if isCancellationRequested tok r then (None, r)
      else case index_file E timestamp maxFileSize file r of
             (Some e, r') \<Rightarrow> (Some e, r')
           | (None, r') \<Rightarrow> index_loop E tok timestamp maxFileSize files r')"

text \<open>\<^verbatim>\<open>forgetFiles\<close>: every uri is forgotten in a callback of its own, awaited.\<close>

fun forgetFiles :: "environment \<Rightarrow> string list \<Rightarrow> run \<Rightarrow> run" where
  "forgetFiles E [] r = r"
| "forgetFiles E (u # us) r = forgetFiles E us (suspend E (emit [Forget u] r))"

text \<open>\<^verbatim>\<open>indexWorkspace\<close> from the point where \<^verbatim>\<open>await Workspace.findFiles(...)\<close> has
  resolved to \<open>files\<close>, to its return.\<close>

definition indexWorkspace_resume ::
  "environment \<Rightarrow> nat \<Rightarrow> int \<Rightarrow> int \<Rightarrow> FileInfo list \<Rightarrow> run \<Rightarrow> (js_error + IndexResult) \<times> run" where
  "indexWorkspace_resume E tok timestamp maxFileSize files r =
     (case index_loop E tok timestamp maxFileSize files r of
        (Some e, r') \<Rightarrow> (Inl e, r')
      | (None, r1) \<Rightarrow>
          let r2 = r1\<lparr> result := (result r1)\<lparr> forgottenFileCount := length (known r1) \<rparr> \<rparr>;
              r3 = (if \<not> isCancellationRequested tok r2 \<and> forgottenFileCount (result r2) > 0
                    then suspend E (forgetFiles E (known r2) r2)
                    else r2);
              r4 = (if isCancellationRequested tok r3
                    then r3\<lparr> result := (result r3)\<lparr> wasCancelled := Some True \<rparr> \<rparr>
                    else r3);
              r5 = r4\<lparr> result := (result r4)\<lparr> elapsed := elapsed_ms (hrtime_diff E) / 1000 \<rparr> \<rparr>
          in (Inr (result r5), r5))"

definition initial_result :: IndexResult where
  "initial_result =
     \<lparr> totalFileCount = 0, indexedFileCount = 0, forgottenFileCount = 0, symbolCount = 0,
       elapsed = 0, wasCancelled = None \<rparr>"

text \<open>\<^verbatim>\<open>associations.push('*.php')\<close>: the array is the configuration's own when the
  configuration defines \<^verbatim>\<open>files.associations\<close>, and the fresh default \<^verbatim>\<open>[]\<close> of
  the call otherwise.\<close>

definition push_php_association :: "server_state \<Rightarrow> server_state" where
  "push_php_association s =
     (case files_associations (config s) of
        None \<Rightarrow> s
      | Some a \<Rightarrow> s\<lparr> config := (config s)\<lparr> files_associations := Some (a @ [''*.php'']) \<rparr> \<rparr>)"

text \<open>\<^verbatim>\<open>indexWorkspace\<close> from \<^verbatim>\<open>indexing = new CancellationTokenSource()\<close> on.\<close>

definition start_run ::
  "environment \<Rightarrow> server_state \<Rightarrow> (js_error + IndexResult) \<times> server_state \<times> event list" where
  "start_run E s1 =
     (let tok = length (sources s1);
          knownDocs = knownDocuments E;
          known0 = set_of_array (fst knownDocs);
          timestamp = snd knownDocs;
          maxFileSize = getConfigValue (files_maxSize (config s1)) 1000000;
          associations = getConfigValue (files_associations (config s1)) [] @ [''*.php''];
          exclude = getConfigValue (files_exclude (config s1)) [];
          useComposerJson = getConfigValue (indexer_useComposerJson (config s1)) True;
          s2 = push_php_association (s1\<lparr> indexing := Some tok, sources := sources s1 @ [False] \<rparr>);
          r0 = \<lparr> state = s2, awaits = 0,
                 trace = [KnownDocuments, FindFiles (set_of_array associations) exclude useComposerJson],
                 known = known0, result = initial_result \<rparr>
      in
        case Workspace_findFiles (host E) (workspaceFolders s1) (set_of_array associations)
               exclude useComposerJson of
          Inl e \<Rightarrow> (Inl e, state (suspend E r0), trace r0)
        | Inr (files, lg) \<Rightarrow>
            let (outcome, r') =
                  indexWorkspace_resume E tok timestamp maxFileSize files
                    (suspend E (emit (map Log lg) r0))
            in (outcome, state r', trace r'))"

text \<open>\<^verbatim>\<open>indexWorkspace(restartIfInProgress)\<close>; a call without the argument is a call
  with \<open>False\<close>. It gives the outcome of the promise, the module state and the
  effects.\<close>

definition indexWorkspace ::
  "environment \<Rightarrow> server_state \<Rightarrow> bool \<Rightarrow> (js_error + IndexResult) \<times> server_state \<times> event list" where
  "indexWorkspace E s restartIfInProgress =
     (if indexing s \<noteq> None then
        (if \<not> restartIfInProgress then (Inr (initial_result\<lparr> wasCancelled := Some True \<rparr>), s, [])
         else start_run E (cancelIndexing s))
      else start_run E s)"

text \<open>One iteration of the loop of \<^verbatim>\<open>indexFiles\<close> for a file within the size
  limit: the file is read and handed to the engine, also when the read gave no
  document.\<close>

definition index_changed_file :: "environment \<Rightarrow> FileInfo \<Rightarrow> run \<Rightarrow> js_error option \<times> run" where
  "index_changed_file E file r =
     (case getDocument (host E) (uri file) of
        Inl e \<Rightarrow> (Some e, r)
      | Inr (doc, path_read, lg) \<Rightarrow>
          (None,
           suspend E
             (emit [DiscoverSymbols doc]
                (suspend E
                   (emit ((case path_read of None \<Rightarrow> [] | Some p \<Rightarrow> [ReadFile p]) @ map Log lg) r)))))"



subsection \<open>Reading the effects of a run\<close>

text \<open>The uris the engine was told to forget, in order.\<close>

fun forgotten :: "event list \<Rightarrow> string list" where
  "forgotten [] = []"
| "forgotten (Forget u # evs) = u # forgotten evs"
| "forgotten (_ # evs) = forgotten evs"



subsection \<open>Concrete hosts and environments\<close>

text \<open>
  The instances at which the theorems below are evaluated. \<open>json_parse_model\<close> is
  \<^verbatim>\<open>JSON.parse\<close> on three manifests: the empty object, \<^verbatim>\<open>null\<close>, and text that is
  not JSON.
\<close>

definition json_parse_model :: "string \<Rightarrow> js_error + composer_json" where
  "json_parse_model d =
     (if d = ''{}'' then Inr (JsonValue None None)
      else if d = ''null'' then Inr JsonNull
      else Inl SyntaxError)"

text \<open>A POSIX host whose folder \<^verbatim>\<open>/w/\<close> holds \<^verbatim>\<open>a.php\<close> and \<^verbatim>\<open>b.php\<close> and no
  \<^verbatim>\<open>composer.json\<close>. fast-glob lists the entries by their paths relative to the
  working directory.\<close>

definition two_file_host :: host where
  "two_file_host =
     \<lparr> platform = posix_host,
       fs_readFile = (\<lambda>p. if p = ''/w/a.php'' then Inr ''<?php a();''
                           else if p = ''/w/b.php'' then Inr ''<?php b();''
                           else Inl (SystemError ''ENOENT'')),
       fs_stat = (\<lambda>p. if p = ''/w/a.php'' then Inr (5, 11)
                       else if p = ''/w/b.php'' then Inr (6, 11)
                       else Inl (SystemError ''ENOENT'')),
       fg_async = (\<lambda>globs opts.
                     if cwd opts = ''/w/'' \<and> globs = [''*.php''] then
                       Inr [\<lparr> entryPath = ''a.php'', entryMtime = 5, entrySize = 11 \<rparr>,
                            \<lparr> entryPath = ''b.php'', entryMtime = 6, entrySize = 11 \<rparr>]
                     else Inr []),
       micromatch = (\<lambda>uris globs ignored.
                       if globs = [''file:///w/**/*.php''] then
                         filter (\<lambda>u. u = ''file:///w/a.php'' \<or> u = ''file:///w/b.php'') uris
                       else []),
       JSON_parse = json_parse_model \<rparr>"

definition no_config :: ServerConfig where
  "no_config =
     \<lparr> files_maxSize = None, files_associations = None, files_exclude = None,
       indexer_useComposerJson = None \<rparr>"

definition idle_state :: "folders \<Rightarrow> server_state" where
  "idle_state fds = \<lparr> workspaceFolders = fds, config = no_config, indexing = None, sources = [] \<rparr>"

text \<open>An engine that knows \<open>docs\<close> since \<open>ts\<close> and finds one symbol per character of
  a document; no other handler cancels.\<close>

definition demo_env :: "host \<Rightarrow> string list \<Rightarrow> int \<Rightarrow> environment" where
  "demo_env H docs ts =
     \<lparr> host = H, knownDocuments = (docs, ts),
       discoverSymbols = (\<lambda>d. case d of None \<Rightarrow> 0 | Some doc \<Rightarrow> int (length (docText doc))),
       hrtime_diff = (0, 0), cancelAfter = None \<rparr>"

definition w_folders :: folders where
  "w_folders = addFolder [] \<lparr> folderUri = ''file:///w'', folderName = ''w'' \<rparr>"

text \<open>
  JSONStream on the data used below, with records that are all \<^verbatim>\<open>null\<close>. An array of
  nulls is written without white space. The parser never emits a null value and
  raises no error where the text ends, so such an array, whole or cut short, gives no
  item and no error; at a character that starts no JSON token, such as \<^verbatim>\<open>x\<close>, it emits
  the error \<^verbatim>\<open>Invalid JSON\<close> and no item. The instance stands for the library on
  arrays of null, on their prefixes, and on text that starts with \<^verbatim>\<open>x\<close>.
\<close>

definition null_stream :: "unit jsonstream" where
  "null_stream =
     \<lparr> stringify = (\<lambda>op sep cl xs. (None, op @ join_with sep (map (\<lambda>x. ''null'') xs) @ cl)),
       parse = (\<lambda>pattern data ended.
                  case data of
                    [] \<Rightarrow> ([], None)
                  | c # rest \<Rightarrow> if c = CHR ''x'' then ([], Some InvalidJSON) else ([], None)) \<rparr>"

text \<open>A file system whose directory \<^verbatim>\<open>c\<close> holds a file that cannot be read and a
  file whose text is not JSON.\<close>

definition cache_fs :: filesystem where
  "cache_fs =
     (\<lambda>p. if p = ''c'' then Some Dir
          else if p = ''c/locked.json'' then Some (Unreadable [] ''EACCES'')
          else if p = ''c/broken.json'' then Some (File ''x'')
          else None)"

section \<open>Properties\<close>

subsection \<open>Evaluation rules\<close>

lemmas uri_eval =
  uri_roundtrip_def pathToUri_def uriToPath_def posix_host_def uri_unescaped_def
  is_ascii_letter_def uri_reserved_def slice_def slice_from_def percent_byte_def hex_digit_def
  hex_byte_def hex_value_def uriScheme_def indexOf_from_def hasFileSystemProvider_def

lemmas run_eval =
  indexWorkspace_resume_def index_file_def index_document_def index_changed_file_def
  getDocument_def suspend_def emit_def isCancellationRequested_def demo_env_def
  two_file_host_def initial_result_def set_of_array_def elapsed_ms_def cancelIndexing_def Let_def

lemmas find_eval =
  indexWorkspace_def start_run_def push_php_association_def Workspace_findFiles_def
  FileSearchProvider_findFiles_def
  findFilesInFolder_def folderArray_def w_folders_def addFolder_def idle_state_def no_config_def
  getConfigValue_def

lemmas cache_eval =
  Cache_get_def Cache_put_def Cache_dispose_def Cache_create_def pathFromKey_def path_join_def
  path_normalize_def createReadStream_def piped_parse_def null_stream_def
  fs_ensureDir_def fs_remove_def is_under_def open_for_write_error_def path_dirname_def
  indexOf_from_def Let_def

subsection \<open>Strings and uris\<close>

lemma index_of_append: "index_of c s = Some k \<Longrightarrow> index_of c (s @ t) = Some k"
  by (induction s arbitrary: k) (auto split: if_splits)

lemma index_of_less: "index_of c s = Some k \<Longrightarrow> k < length s"
  by (induction s arbitrary: k) (auto split: if_splits)

text \<open>A uri of a local folder stays local when a file name is appended.\<close>

lemma uriScheme_append:
  assumes "uriScheme u = ''file''"
  shows "uriScheme (u @ x) = ''file''"
proof -
  from assms obtain k where k: "index_of (CHR '':'') u = Some k"
    by (auto simp: uriScheme_def indexOf_from_def split: option.splits)
  with assms have t: "take k u = ''file''"
    by (simp add: uriScheme_def slice_def indexOf_from_def)
  from index_of_less [OF k] t have "take k (u @ x) = ''file''" by simp
  with index_of_append [OF k] show ?thesis
    by (simp add: uriScheme_def slice_def indexOf_from_def)
qed

lemma pathToUri_rooted:
  assumes "\<not> isWindows P" and "p = CHR ''/'' # rest" and "\<not> prefix ''/'' rest"
  shows "pathToUri P p = encodeURI P (''file://'' @ p)"
  using assms by (cases rest) (auto simp: pathToUri_def)

lemma uriToPath_rooted:
  assumes "\<not> isWindows P" and "decodeURI P u = Inr (''file://'' @ CHR ''/'' # rest)"
    and "\<not> SLASH_DRIVE_PATTERN (CHR ''/'' # rest)"
  shows "uriToPath P u = Inr (CHR ''/'' # rest)"
  using assms by (simp add: uriToPath_def slice_def slice_from_def)

lemma pathToUri_relative:
  assumes "\<not> isWindows P" and "\<not> prefix ''/'' p" and "\<not> DRIVE_PATTERN p"
  shows "pathToUri P p = []"
  using assms by (cases p) (auto simp: pathToUri_def)

text \<open>In the instance of the built-ins, decoding undoes encoding on every string.\<close>

lemma hex_value_digit: "hex_value (hex_digit d) = Some (d mod 16)"
proof -
  have "list_all (\<lambda>k. hex_value (hex_digit k) = Some k) [0..<16]" by code_simp
  moreover have "d mod 16 \<in> set [0..<16]" by simp
  ultimately have "hex_value (hex_digit (d mod 16)) = Some (d mod 16)"
    unfolding list_all_iff by blast
  then show ?thesis by (simp add: hex_digit_def)
qed

lemma hex_byte_back: "b < 256 \<Longrightarrow> hex_byte (hex_digit (b div 16)) (hex_digit b) = Some b"
  by (simp add: hex_byte_def hex_value_digit)

lemma unescaped_not_percent: "uri_unescaped c \<Longrightarrow> c \<noteq> CHR ''%''"
  by (auto simp: uri_unescaped_def uri_reserved_def is_ascii_letter_def Let_def)

lemma reserved_unescaped: "c \<in> uri_reserved \<Longrightarrow> uri_unescaped c"
  by (simp add: uri_unescaped_def Let_def)

lemma decodeURI_encodeURI_model: "decodeURI_model (encodeURI_model s) = Inr s"
proof (induction s)
  case Nil
  show ?case by simp
next
  case (Cons c cs)
  let ?n = "of_char c :: nat"
  consider (keep) "uri_unescaped c" | (one) "\<not> uri_unescaped c" "?n < 128"
    | (two) "\<not> uri_unescaped c" "128 \<le> ?n" by linarith
  then show ?case
  proof cases
    case keep
    with Cons.IH unescaped_not_percent [OF keep] show ?thesis by simp
  next
    case one
    have nr: "c \<notin> uri_reserved" using one(1) reserved_unescaped by blast
    have hb: "hex_byte (hex_digit (?n div 16)) (hex_digit ?n) = Some ?n"
      using hex_byte_back one(2) by simp
    show ?thesis using one Cons.IH nr hb
      by (simp add: percent_byte_def Let_def)
  next
    case two
    have lt: "?n < 256" by (rule nat_of_char_less_256)
    let ?b = "192 + ?n div 64" and ?b2 = "128 + ?n mod 64"
    have "2 \<le> ?n div 64" using div_le_mono [OF two(2), of 64] by simp
    moreover have "?n div 64 < 4" using lt by (simp add: less_mult_imp_div_less)
    ultimately have b: "?b = 194 \<or> ?b = 195" by linarith
    have "?b < 256" using b by linarith
    then have hb: "hex_byte (hex_digit (?b div 16)) (hex_digit ?b) = Some ?b"
      by (rule hex_byte_back)
    have "?n mod 64 < 64" by simp
    then have "?b2 < 256" by linarith
    then have hb2: "hex_byte (hex_digit (?b2 div 16)) (hex_digit ?b2) = Some ?b2"
      by (rule hex_byte_back)
    have undo: "(?b - 192) * 64 + (?b2 - 128) = ?n" by simp
    have enc: "encodeURI_model (c # cs)
        = CHR ''%'' # hex_digit (?b div 16) # hex_digit ?b
          # CHR ''%'' # hex_digit (?b2 div 16) # hex_digit ?b2 # encodeURI_model cs"
      using two by (simp add: percent_byte_def Let_def)
    show ?thesis
      unfolding enc using Cons.IH hb hb2 b undo
      by (auto simp del: add_diff_cancel_left')
  qed
qed

subsection \<open>The cache\<close>

text \<open>After a successful \<^verbatim>\<open>del\<close> the key is missing again.\<close>

lemma Cache_get_after_del:
  assumes "Cache_del fs this key = Inr fs'"
  shows "Cache_get J fs' this key = Inr []"
proof -
  from assms have "fs' (pathFromKey this key) = None"
    by (auto simp: Cache_del_def fs_unlink_def split: option.splits fnode.splits)
  then show ?thesis
    by (simp add: Cache_get_def createReadStream_def piped_parse_def)
qed

subsection \<open>The discovery\<close>

text \<open>\<^verbatim>\<open>findFiles\<close> calls \<^verbatim>\<open>findFilesInFolder\<close> with an undefined \<^verbatim>\<open>this\<close>: a folder of
  another scheme gives no file, a local folder throws. So whenever the discovery of
  the workspace resolves, it resolves to no file at all.\<close>

lemma findFilesInFolder_undefined_this:
  "findFilesInFolder H ThisUndefined u a e c G =
     (if uriScheme u \<noteq> ''file'' then Inr ([], G, []) else Inl TypeError)"
  by (simp add: findFilesInFolder_def)

lemma findFiles_loop_finds_nothing:
  "findFiles_loop H fds a e c G = Inr (files, lg) \<Longrightarrow> files = []"
proof (induction fds arbitrary: G files lg)
  case Nil
  then show ?case by simp
next
  case (Cons f fs)
  show ?case
  proof (cases "uriScheme (folderUri f) = ''file''")
    case True
    with Cons.prems show ?thesis by (simp add: findFilesInFolder_undefined_this)
  next
    case False
    with Cons.prems obtain rest lg' where
      r: "findFiles_loop H fs a e c G = Inr (rest, lg')" and "files = rest"
      by (auto simp: findFilesInFolder_undefined_this split: sum.splits)
    with Cons.IH [OF r] show ?thesis by simp
  qed
qed

lemma Workspace_findFiles_finds_nothing:
  "Workspace_findFiles H fds a e c = Inr (files, lg) \<Longrightarrow> files = []"
  unfolding Workspace_findFiles_def FileSearchProvider_findFiles_def
  by (rule findFiles_loop_finds_nothing)


text \<open>With a \<^verbatim>\<open>this\<close> that has a \<^verbatim>\<open>uri\<close>, a local folder whose \<^verbatim>\<open>composer.json\<close> is
  read but cannot be parsed is searched as with composer integration disabled and
  \<^verbatim>\<open>vendor/**\<close> added to the excluded patterns, with one more warning, first.\<close>

lemma findFilesInFolder_unparseable_manifest:
  assumes "uriScheme folder_uri = ''file''"
    and "LocalFileSystem_readFile H (folder_uri @ ''composer.json'') = Inr (Inr data)"
    and "composer_packages H data = Inl e"
  shows "findFilesInFolder H this folder_uri associations exclude True G
       = (case findFilesInFolder H this folder_uri associations (exclude @ [''vendor/**'']) False G of
            Inl err \<Rightarrow> Inl err
          | Inr (files, g, lg) \<Rightarrow> Inr (files, g, Warn e # lg))"
proof -
  from assms(1) have "uriScheme (folder_uri @ ''composer.json'') = ''file''"
    by (rule uriScheme_append)
  with assms have v: "vendor_pass H folder_uri p associations G = Inr ([], G, [Warn e])" for p
    by (simp add: vendor_pass_def readComposerPackages_def hasFileSystemProvider_def)
  from assms show ?thesis
    by (simp add: findFilesInFolder_def v Let_def split: sum.splits prod.splits)
qed




subsection \<open>The walk of \<^verbatim>\<open>indexWorkspace\<close>\<close>

lemma forgotten_append: "forgotten (xs @ ys) = forgotten xs @ forgotten ys"
  by (induction xs rule: forgotten.induct) auto

lemma forgotten_Log: "forgotten (map Log lg) = []"
  by (induction lg) auto

lemma forgotten_map_Forget: "forgotten (map Forget us) = us"
  by (induction us) auto



lemma suspend_fields:
  "trace (suspend E r) = trace r" "known (suspend E r) = known r" "result (suspend E r) = result r"
  by (simp_all add: suspend_def)

lemma emit_fields:
  "trace (emit evs r) = trace r @ evs" "known (emit evs r) = known r"
  "result (emit evs r) = result r" "state (emit evs r) = state r"
  by (simp_all add: emit_def)

lemma isCancellationRequested_result:
  "isCancellationRequested tok (r\<lparr> result := x \<rparr>) = isCancellationRequested tok r"
  by (simp add: isCancellationRequested_def)

lemma index_document_frame:
  assumes "index_document E f r = (err, r')"
  shows "known r' = known r \<and> forgotten (trace r') = forgotten (trace r)
         \<and> wasCancelled (result r') = wasCancelled (result r)
         \<and> totalFileCount (result r') = totalFileCount (result r)"
  using assms
  by (auto simp: index_document_def Let_def suspend_fields emit_fields
      forgotten_append forgotten_Log split: sum.splits option.splits prod.splits)

text \<open>One iteration takes the file's uri out of \<^verbatim>\<open>known\<close>, forgets nothing and
  leaves \<^verbatim>\<open>totalFileCount\<close> and \<^verbatim>\<open>wasCancelled\<close> alone.\<close>

lemma index_file_frame:
  assumes "index_file E ts m f r = (err, r')"
  shows "known r' = removeAll (uri f) (known r) \<and> forgotten (trace r') = forgotten (trace r)
         \<and> wasCancelled (result r') = wasCancelled (result r)
         \<and> totalFileCount (result r') = totalFileCount (result r)"
proof (cases "uri f \<in> set (known r)")
  case True
  show ?thesis
  proof (cases "modified f < ts")
    case True
    with \<open>uri f \<in> set (known r)\<close> assms show ?thesis
      by (auto simp: index_file_def Let_def)
  next
    case False
    with \<open>uri f \<in> set (known r)\<close> assms
    have "index_document E f (r\<lparr>known := removeAll (uri f) (known r)\<rparr>) = (err, r')"
      by (simp add: index_file_def Let_def)
    from index_document_frame [OF this] show ?thesis by simp
  qed
next
  case False
  then have k: "removeAll (uri f) (known r) = known r" by simp
  show ?thesis
  proof (cases "sizeBytes f > m")
    case True
    with False assms show ?thesis
      by (auto simp: index_file_def emit_fields forgotten_append k)
  next
    case big: False
    with False assms have "index_document E f r = (err, r')"
      by (simp add: index_file_def)
    from index_document_frame [OF this] show ?thesis by (simp add: k)
  qed
qed

lemma index_loop_total:
  "index_loop E tok ts m files r = (err, r') \<Longrightarrow>
     wasCancelled (result r') = wasCancelled (result r)
     \<and> totalFileCount (result r') = totalFileCount (result r)"
proof (induction files arbitrary: r)
  case Nil
  then show ?case by simp
next
  case (Cons f fs)
  show ?case
  proof (cases "isCancellationRequested tok r")
    case True
    with Cons.prems show ?thesis by simp
  next
    case False
    obtain e1 r1 where step: "index_file E ts m f r = (e1, r1)"
      by (cases "index_file E ts m f r")
    note fr = index_file_frame [OF step]
    show ?thesis
    proof (cases e1)
      case None
      with False step Cons.prems have "index_loop E tok ts m fs r1 = (err, r')" by simp
      from Cons.IH [OF this] fr show ?thesis by simp
    next
      case (Some e)
      with False step Cons.prems have "r' = r1" by simp
      with fr show ?thesis by simp
    qed
  qed
qed

text \<open>A loop that ends with the token not cancelled has seen every file.\<close>

lemma index_loop_complete:
  assumes "index_loop E tok ts m files r = (None, r')" and "\<not> isCancellationRequested tok r'"
  shows "known r' = filter (\<lambda>u. u \<notin> uri ` set files) (known r)
         \<and> forgotten (trace r') = forgotten (trace r)"
  using assms
proof (induction files arbitrary: r)
  case Nil
  then show ?case by simp
next
  case (Cons f fs)
  from Cons.prems have nc: "\<not> isCancellationRequested tok r"
    by (auto split: if_splits)
  with Cons.prems obtain r1 where
    step: "index_file E ts m f r = (None, r1)" and
    rest: "index_loop E tok ts m fs r1 = (None, r')"
    by (auto split: prod.splits option.splits)
  from index_file_frame [OF step]
  have fr: "known r1 = removeAll (uri f) (known r)"
    "forgotten (trace r1) = forgotten (trace r)" by simp_all
  from Cons.IH [OF rest Cons.prems(2)] fr show ?case
    by (auto simp: removeAll_filter_not_eq filter_filter intro: filter_cong)
qed

lemma forgetFiles_frame:
  "trace (forgetFiles E us r) = trace r @ map Forget us
   \<and> result (forgetFiles E us r) = result r \<and> known (forgetFiles E us r) = known r"
  by (induction us arbitrary: r) (simp_all add: suspend_fields emit_fields)

lemma set_of_array_props: "distinct (set_of_array xs)" "set (set_of_array xs) = set xs"
  by (simp_all add: set_of_array_def)

text \<open>The walk tests the size of a file only when its uri is not a known document: a
  known file that changed goes on to be read, whatever its size.\<close>

lemma index_file_known_changed:
  assumes "uri f \<in> set (known r)" and "\<not> modified f < ts"
  shows "index_file E ts m f r = index_document E f (r\<lparr> known := removeAll (uri f) (known r) \<rparr>)"
  using assms by (simp add: index_file_def)


text \<open>A run that returns without the cancellation flag forgets what is left of
  \<^verbatim>\<open>known\<close> after every discovered uri was taken out, and counts it.\<close>

lemma resume_forgets:
  assumes run: "indexWorkspace_resume E tok ts m files r = (Inr res, r')"
    and nc: "wasCancelled res \<noteq> Some True"
  shows "forgottenFileCount res = length (filter (\<lambda>u. u \<notin> uri ` set files) (known r))
     \<and> forgotten (trace r') = forgotten (trace r) @ filter (\<lambda>u. u \<notin> uri ` set files) (known r)"
proof -
  from run obtain r1 where loop: "index_loop E tok ts m files r = (None, r1)"
    by (auto simp: indexWorkspace_resume_def split: prod.splits option.splits)
  define r2 where "r2 = r1\<lparr> result := (result r1)\<lparr> forgottenFileCount := length (known r1) \<rparr> \<rparr>"
  define r3 where "r3 = (if \<not> isCancellationRequested tok r2 \<and> forgottenFileCount (result r2) > 0
                    then suspend E (forgetFiles E (known r2) r2) else r2)"
  have c3: "result r3 = result r2"
    by (simp add: r3_def suspend_fields forgetFiles_frame)
  from run loop nc have nc3: "\<not> isCancellationRequested tok r3"
    by (auto simp: indexWorkspace_resume_def Let_def r2_def r3_def split: if_splits)
  have nc2: "\<not> isCancellationRequested tok r2"
  proof
    assume "isCancellationRequested tok r2"
    then have "r3 = r2" by (simp add: r3_def)
    with nc3 \<open>isCancellationRequested tok r2\<close> show False by simp
  qed
  then have nc1: "\<not> isCancellationRequested tok r1"
    by (simp add: r2_def isCancellationRequested_result)
  from index_loop_complete [OF loop nc1]
  have fr: "known r1 = filter (\<lambda>u. u \<notin> uri ` set files) (known r)"
    "forgotten (trace r1) = forgotten (trace r)" by simp_all
  have t3: "forgotten (trace r3) = forgotten (trace r1) @ known r1"
    using nc2
    by (auto simp: r3_def suspend_fields forgetFiles_frame forgotten_append
        forgotten_map_Forget r2_def)
  from run loop nc3 have res: "res = (result r3)\<lparr> elapsed := elapsed_ms (hrtime_diff E) / 1000 \<rparr>"
    and r': "trace r' = trace r3"
    by (auto simp: indexWorkspace_resume_def Let_def r2_def r3_def)
  show ?thesis
    by (simp add: res c3 r2_def fr r' t3)
qed

lemma start_run_resumes:
  assumes run: "start_run E s = (Inr res, s', tr)"
  shows "\<exists>files lg tok m r0 r'.
           Workspace_findFiles (host E) (workspaceFolders s)
             (set_of_array (getConfigValue (files_associations (config s)) [] @ [''*.php'']))
             (getConfigValue (files_exclude (config s)) [])
             (getConfigValue (indexer_useComposerJson (config s)) True) = Inr (files, lg)
           \<and> indexWorkspace_resume E tok (snd (knownDocuments E)) m files r0 = (Inr res, r')
           \<and> known r0 = set_of_array (fst (knownDocuments E))
           \<and> forgotten (trace r0) = [] \<and> result r0 = initial_result \<and> tr = trace r'"
proof -
  define r0 where "r0 = \<lparr> state = push_php_association
                   (s\<lparr> indexing := Some (length (sources s)), sources := sources s @ [False] \<rparr>),
                 awaits = 0,
                 trace = [KnownDocuments,
                          FindFiles (set_of_array (getConfigValue (files_associations (config s)) [] @ [''*.php'']))
                            (getConfigValue (files_exclude (config s)) [])
                            (getConfigValue (indexer_useComposerJson (config s)) True)],
                 known = set_of_array (fst (knownDocuments E)), result = initial_result \<rparr>"
  from run obtain files lg r' where
    f: "Workspace_findFiles (host E) (workspaceFolders s)
             (set_of_array (getConfigValue (files_associations (config s)) [] @ [''*.php'']))
             (getConfigValue (files_exclude (config s)) [])
             (getConfigValue (indexer_useComposerJson (config s)) True) = Inr (files, lg)" and
    w: "indexWorkspace_resume E (length (sources s)) (snd (knownDocuments E))
          (getConfigValue (files_maxSize (config s)) 1000000) files
          (suspend E (emit (map Log lg) r0)) = (Inr res, r')" and
    t: "tr = trace r'"
    unfolding start_run_def Let_def r0_def [symmetric]
    by (auto split: sum.splits prod.splits)
  have k: "known (suspend E (emit (map Log lg) r0)) = set_of_array (fst (knownDocuments E))"
    by (simp add: suspend_fields emit_fields r0_def)
  have z: "forgotten (trace (suspend E (emit (map Log lg) r0))) = []"
    by (simp add: suspend_fields emit_fields r0_def forgotten_append forgotten_Log)
  have i: "result (suspend E (emit (map Log lg) r0)) = initial_result"
    by (simp add: suspend_fields emit_fields r0_def)
  from f w k z i t show ?thesis by blast
qed

lemma cancelIndexing_keeps:
  "workspaceFolders (cancelIndexing s) = workspaceFolders s" "config (cancelIndexing s) = config s"
  by (simp_all add: cancelIndexing_def split: option.splits)

text \<open>The statement about the walk, for \<^verbatim>\<open>indexWorkspace\<close> as a whole: a call that
  returns a result without the cancellation flag has run the discovery, and has
  forgotten the known documents that the discovery did not return.\<close>

lemma indexWorkspace_forgets:
  assumes run: "indexWorkspace E s restart = (Inr res, s', tr)"
    and nc: "wasCancelled res \<noteq> Some True"
  shows "\<exists>files lg.
           Workspace_findFiles (host E) (workspaceFolders s)
             (set_of_array (getConfigValue (files_associations (config s)) [] @ [''*.php'']))
             (getConfigValue (files_exclude (config s)) [])
             (getConfigValue (indexer_useComposerJson (config s)) True) = Inr (files, lg)
           \<and> forgottenFileCount res = card (set (fst (knownDocuments E)) - uri ` set files)
           \<and> forgotten tr
               = filter (\<lambda>u. u \<notin> uri ` set files) (set_of_array (fst (knownDocuments E)))"
proof -
  from run nc have "start_run E s = (Inr res, s', tr) \<or> start_run E (cancelIndexing s) = (Inr res, s', tr)"
    by (auto simp: indexWorkspace_def initial_result_def split: if_splits)
  then obtain files lg tok m r0 r' where
    f: "Workspace_findFiles (host E) (workspaceFolders s)
             (set_of_array (getConfigValue (files_associations (config s)) [] @ [''*.php'']))
             (getConfigValue (files_exclude (config s)) [])
             (getConfigValue (indexer_useComposerJson (config s)) True) = Inr (files, lg)" and
    w: "indexWorkspace_resume E tok (snd (knownDocuments E)) m files r0 = (Inr res, r')" and
    k: "known r0 = set_of_array (fst (knownDocuments E))" and
    z: "forgotten (trace r0) = []" and t: "tr = trace r'"
    using start_run_resumes [of E s res s' tr]
      start_run_resumes [of E "cancelIndexing s" res s' tr]
    by (auto simp: cancelIndexing_keeps)
  let ?left = "filter (\<lambda>u. u \<notin> uri ` set files) (set_of_array (fst (knownDocuments E)))"
  from resume_forgets [OF w nc] k z t
  have a: "forgottenFileCount res = length ?left" and b: "forgotten tr = ?left" by simp_all
  have "distinct ?left" and "set ?left = set (fst (knownDocuments E)) - uri ` set files"
    by (auto simp: set_of_array_props)
  then have "length ?left = card (set (fst (knownDocuments E)) - uri ` set files)"
    using distinct_card by fastforce
  with a b f show ?thesis by auto
qed

text \<open>Since the discovery of the workspace never resolves to a file, a call that
  returns a result without the cancellation flag has forgotten every known document.\<close>

lemma indexWorkspace_forgets_every_known_document:
  assumes run: "indexWorkspace E s restart = (Inr res, s', tr)"
    and nc: "wasCancelled res \<noteq> Some True"
  shows "forgotten tr = set_of_array (fst (knownDocuments E))
         \<and> forgottenFileCount res = card (set (fst (knownDocuments E)))"
proof -
  from indexWorkspace_forgets [OF run nc] obtain files lg where
    f: "Workspace_findFiles (host E) (workspaceFolders s)
             (set_of_array (getConfigValue (files_associations (config s)) [] @ [''*.php'']))
             (getConfigValue (files_exclude (config s)) [])
             (getConfigValue (indexer_useComposerJson (config s)) True) = Inr (files, lg)" and
    c: "forgottenFileCount res = card (set (fst (knownDocuments E)) - uri ` set files)" and
    t: "forgotten tr
          = filter (\<lambda>u. u \<notin> uri ` set files) (set_of_array (fst (knownDocuments E)))"
    by blast
  from Workspace_findFiles_finds_nothing [OF f] have "files = []" .
  with c t show ?thesis by simp
qed

text \<open>No statement of \<^verbatim>\<open>indexWorkspace\<close> assigns \<^verbatim>\<open>totalFileCount\<close>: a run returns the
  value it started with.\<close>

lemma resume_total:
  assumes run: "indexWorkspace_resume E tok ts m files r = (Inr res, r')"
  shows "totalFileCount res = totalFileCount (result r)"
proof -
  from run obtain r1 where loop: "index_loop E tok ts m files r = (None, r1)"
    by (auto simp: indexWorkspace_resume_def split: prod.splits option.splits)
  from index_loop_total [OF loop] have "totalFileCount (result r1) = totalFileCount (result r)"
    by simp
  with run loop show ?thesis
    by (auto simp: indexWorkspace_resume_def Let_def suspend_fields forgetFiles_frame)
qed

lemma indexWorkspace_total_is_zero:
  assumes run: "indexWorkspace E s restart = (Inr res, s', tr)"
  shows "totalFileCount res = 0"
proof (cases "indexing s \<noteq> None \<and> \<not> restart")
  case True
  with run show ?thesis by (auto simp: indexWorkspace_def initial_result_def)
next
  case False
  with run have "start_run E s = (Inr res, s', tr) \<or> start_run E (cancelIndexing s) = (Inr res, s', tr)"
    by (auto simp: indexWorkspace_def split: if_splits)
  then obtain tok ts m files r0 r' where
    w: "indexWorkspace_resume E tok ts m files r0 = (Inr res, r')" and
    i: "result r0 = initial_result"
    using start_run_resumes [of E s res s' tr]
      start_run_resumes [of E "cancelIndexing s" res s' tr]
    by blast
  from resume_total [OF w] i show ?thesis by (simp add: initial_result_def)
qed

text \<open>When no other handler cancels, a run leaves the module state as it found it: in
  particular \<^verbatim>\<open>indexing\<close> still holds the source that the run created.\<close>

lemma suspend_quiet: "cancelAfter E = None \<Longrightarrow> state (suspend E r) = state r"
  by (simp add: suspend_def)

lemma index_file_state:
  assumes "cancelAfter E = None" and "index_file E ts m f r = (err, r')"
  shows "state r' = state r"
  using assms
  by (auto simp: index_file_def index_document_def Let_def suspend_quiet emit_fields
      split: if_splits sum.splits option.splits prod.splits)

lemma index_loop_state:
  assumes "cancelAfter E = None"
  shows "index_loop E tok ts m files r = (err, r') \<Longrightarrow> state r' = state r"
proof (induction files arbitrary: r)
  case Nil
  then show ?case by simp
next
  case (Cons f fs)
  show ?case
  proof (cases "isCancellationRequested tok r")
    case True
    with Cons.prems show ?thesis by simp
  next
    case False
    obtain e1 r1 where step: "index_file E ts m f r = (e1, r1)"
      by (cases "index_file E ts m f r")
    note st = index_file_state [OF assms step]
    show ?thesis
    proof (cases e1)
      case None
      with False step Cons.prems have "index_loop E tok ts m fs r1 = (err, r')" by simp
      from Cons.IH [OF this] st show ?thesis by simp
    next
      case (Some e)
      with False step Cons.prems have "r' = r1" by simp
      with st show ?thesis by simp
    qed
  qed
qed

lemma forgetFiles_state:
  "cancelAfter E = None \<Longrightarrow> state (forgetFiles E us r) = state r"
  by (induction us arbitrary: r) (simp_all add: suspend_quiet emit_fields)

lemma resume_state:
  assumes quiet: "cancelAfter E = None"
    and run: "indexWorkspace_resume E tok ts m files r = (outcome, r')"
  shows "state r' = state r"
proof -
  obtain e1 r1 where loop: "index_loop E tok ts m files r = (e1, r1)"
    by (cases "index_loop E tok ts m files r")
  note st = index_loop_state [OF quiet loop]
  show ?thesis
  proof (cases e1)
    case (Some e)
    with run loop st show ?thesis by (simp add: indexWorkspace_resume_def)
  next
    case None
    with run loop st show ?thesis
      by (auto simp: indexWorkspace_resume_def Let_def suspend_quiet [OF quiet]
          forgetFiles_state [OF quiet] split: if_splits)
  qed
qed

lemma start_run_leaves_indexing_set:
  assumes quiet: "cancelAfter E = None" and run: "start_run E s = (outcome, s', tr)"
  shows "indexing s' = Some (length (sources s))"
proof -
  have p: "indexing (push_php_association x) = indexing x" for x
    by (simp add: push_php_association_def split: option.splits)
  from run show ?thesis
    unfolding start_run_def Let_def
    by (auto simp: suspend_quiet [OF quiet] emit_fields p dest!: resume_state [OF quiet]
        split: sum.splits prod.splits)
qed





section \<open>The claims\<close>


text \<open>
  Claim C2: after \<^verbatim>\<open>indexWorkspace\<close> has started a run and returned its result, the
  cancellation handle is cleared, so that a following call with
  \<^verbatim>\<open>restartIfRunning = false\<close> starts a fresh run. Only \<^verbatim>\<open>cancelIndexing\<close> assigns
  \<^verbatim>\<open>undefined\<close> to \<^verbatim>\<open>indexing\<close>. Here a server without folders runs
  \<^verbatim>\<open>indexWorkspace()\<close> from the idle state: the run returns its result with source 0
  still current, and the next call declines.
\<close>

theorem indexing_stays_set_after_run:
  "(case indexWorkspace (demo_env two_file_host [] 0) (idle_state []) False of
      (outcome, s1, tr) \<Rightarrow>
        outcome = Inr initial_result \<and> indexing s1 = Some 0 \<and> isIndexing s1
        \<and> indexWorkspace (demo_env two_file_host [] 0) s1 False
            = (Inr (initial_result\<lparr> wasCancelled := Some True \<rparr>), s1, []))"
  by (simp add: find_eval run_eval uri_eval isIndexing_def)



text \<open>
  Claim C4: with one local workspace folder that has no \<^verbatim>\<open>composer.json\<close> and two
  discoverable files below the size limit, unknown to the engine, \<^verbatim>\<open>indexWorkspace()\<close>
  returns \<^verbatim>\<open>indexedFileCount = 2\<close>, \<^verbatim>\<open>forgottenFileCount = 0\<close>, no cancellation flag
  and the sum of the two symbol counts. \<^verbatim>\<open>findFilesInFolder\<close> computes its working
  directory from \<^verbatim>\<open>this.uri\<close> and is called with no \<^verbatim>\<open>this\<close>: on that workspace
  the promise of \<^verbatim>\<open>indexWorkspace\<close> is rejected with a \<^verbatim>\<open>TypeError\<close> before any file
  is searched, and \<^verbatim>\<open>indexing\<close> stays set.
\<close>

theorem indexWorkspace_rejects_on_local_folder:
  "indexWorkspace (demo_env two_file_host [] 0) (idle_state w_folders) False
     = (Inl TypeError,
        \<lparr> workspaceFolders = [(''file:///w/'', \<lparr> folderUri = ''file:///w/'', folderName = ''w'' \<rparr>)],
          config = no_config, indexing = Some 0, sources = [False] \<rparr>,
        [KnownDocuments, FindFiles [''*.php''] [] True])"
  by (simp add: find_eval run_eval uri_eval)




text \<open>
  Claim C7: when a run is active and \<^verbatim>\<open>indexWorkspace\<close> is called with
  \<^verbatim>\<open>restartIfRunning = false\<close>, it returns at once a result with \<^verbatim>\<open>wasCancelled = true\<close>
  and all four counters zero, and has no effect: the engine is not asked for its
  documents, nothing is discovered, read, submitted or forgotten, and the state of the
  active run is unchanged.
\<close>

theorem indexWorkspace_declines_without_effects:
  "indexing s \<noteq> None \<longrightarrow>
     indexWorkspace E s False
       = (Inr \<lparr> totalFileCount = 0, indexedFileCount = 0, forgottenFileCount = 0, symbolCount = 0,
                elapsed = 0, wasCancelled = Some True \<rparr>, s, [])"
  by (simp add: indexWorkspace_def initial_result_def)

theorem indexWorkspace_declines_without_effects_witness:
  "indexing \<lparr> workspaceFolders = w_folders, config = no_config, indexing = Some 0, sources = [False] \<rparr>
     \<noteq> None
   \<and> indexWorkspace (demo_env two_file_host [''file:///w/a.php''] 0)
        \<lparr> workspaceFolders = w_folders, config = no_config, indexing = Some 0, sources = [False] \<rparr>
        False
       = (Inr \<lparr> totalFileCount = 0, indexedFileCount = 0, forgottenFileCount = 0, symbolCount = 0,
                elapsed = 0, wasCancelled = Some True \<rparr>,
          \<lparr> workspaceFolders = w_folders, config = no_config, indexing = Some 0, sources = [False] \<rparr>,
          [])"
  using indexWorkspace_declines_without_effects
    [of "\<lparr> workspaceFolders = w_folders, config = no_config, indexing = Some 0, sources = [False] \<rparr>"
      "demo_env two_file_host [''file:///w/a.php''] 0"]
  by simp

text \<open>
  Claim C8: \<^verbatim>\<open>Cache.dispose()\<close> removes the whole directory of the cache, so that no
  backing file of a key written through \<^verbatim>\<open>put\<close> remains. \<^verbatim>\<open>dispose\<close> removes
  \<^verbatim>\<open>pathFromKey(this.dir)\<close>, the backing file of the key that spells the directory.
  Here a cache is created in the directory \<^verbatim>\<open>c\<close> of an empty file system and two
  records are put under the key \<^verbatim>\<open>k\<close>: \<^verbatim>\<open>dispose\<close> removes the path
  \<^verbatim>\<open>c/c.json\<close>, and both the file \<^verbatim>\<open>c/k.json\<close> and the directory are still there.
\<close>

theorem dispose_leaves_cache_directory:
  "(case Cache_create Map.empty ''c'' of
      (None, fs1) \<Rightarrow> False
    | (Some cache, fs1) \<Rightarrow>
        (case Cache_put null_stream fs1 cache ''k'' [(), ()] of
           (outcome, fs2) \<Rightarrow>
             outcome = Inr ()
             \<and> fs2 ''c/k.json'' = Some (File ''[null,null]'')
             \<and> pathFromKey cache (dir cache) = ''c/c.json''
             \<and> Cache_dispose fs2 cache ''c/k.json'' = Some (File ''[null,null]'')
             \<and> Cache_dispose fs2 cache ''c'' = Some Dir))"
  by (simp add: cache_eval)

text \<open>
  Claim C9: \<^verbatim>\<open>Cache.get(key)\<close> for a key whose backing file does not exist resolves to
  an empty sequence; any other read error, and any error of the parser, makes the call
  fail.
\<close>

theorem Cache_get_missing_or_failing:
  "(fs (pathFromKey this key) = None \<longrightarrow> Cache_get J fs this key = Inr [])
   \<and> (createReadStream fs (pathFromKey this key) = (d, Some err) \<and> error_code err \<noteq> Some ''ENOENT''
        \<longrightarrow> isl (Cache_get J fs this key))
   \<and> (createReadStream fs (pathFromKey this key) = (d, rerr)
        \<and> piped_parse J ''*'' d (rerr = None) = (items, Some perr)
        \<longrightarrow> Cache_get J fs this key = Inl perr)"
  by (auto simp: Cache_get_def createReadStream_def piped_parse_def Let_def
      split: prod.splits option.splits)

text \<open>In the directory \<^verbatim>\<open>c\<close> the key \<^verbatim>\<open>absent\<close> has no file, the file of \<^verbatim>\<open>locked\<close>
  cannot be read, and the file of \<^verbatim>\<open>broken\<close> holds the text \<^verbatim>\<open>x\<close>, which is not JSON.\<close>

theorem Cache_get_missing_or_failing_witness:
  "cache_fs (pathFromKey \<lparr> dir = ''c'' \<rparr> ''absent'') = None
   \<and> Cache_get null_stream cache_fs \<lparr> dir = ''c'' \<rparr> ''absent'' = Inr []
   \<and> createReadStream cache_fs (pathFromKey \<lparr> dir = ''c'' \<rparr> ''locked'')
       = ([], Some (SystemError ''EACCES''))
   \<and> error_code (SystemError ''EACCES'') \<noteq> Some ''ENOENT''
   \<and> isl (Cache_get null_stream cache_fs \<lparr> dir = ''c'' \<rparr> ''locked'')
   \<and> createReadStream cache_fs (pathFromKey \<lparr> dir = ''c'' \<rparr> ''broken'') = (''x'', None)
   \<and> piped_parse null_stream ''*'' ''x'' (None = (None :: js_error option))
       = ([], Some InvalidJSON)
   \<and> Cache_get null_stream cache_fs \<lparr> dir = ''c'' \<rparr> ''broken'' = Inl InvalidJSON"
proof -
  have p1: "pathFromKey \<lparr> dir = ''c'' \<rparr> ''absent'' = ''c/absent.json''"
    and p2: "pathFromKey \<lparr> dir = ''c'' \<rparr> ''locked'' = ''c/locked.json''"
    and p3: "pathFromKey \<lparr> dir = ''c'' \<rparr> ''broken'' = ''c/broken.json''"
    by (simp_all add: pathFromKey_def path_join_def path_normalize_def)
  have h1: "cache_fs (pathFromKey \<lparr> dir = ''c'' \<rparr> ''absent'') = None"
    by (simp add: p1 cache_fs_def)
  have h2: "createReadStream cache_fs (pathFromKey \<lparr> dir = ''c'' \<rparr> ''locked'')
              = ([], Some (SystemError ''EACCES''))"
    by (simp add: p2 cache_fs_def createReadStream_def)
  have h2': "error_code (SystemError ''EACCES'') \<noteq> Some ''ENOENT''" by simp
  have h3: "createReadStream cache_fs (pathFromKey \<lparr> dir = ''c'' \<rparr> ''broken'') = (''x'', None)"
    by (simp add: p3 cache_fs_def createReadStream_def)
  have h3': "piped_parse null_stream ''*'' ''x'' (None = (None :: js_error option))
               = ([], Some InvalidJSON)"
    by (simp add: piped_parse_def null_stream_def)
  from Cache_get_missing_or_failing
    [where fs = cache_fs and this = "\<lparr> dir = ''c'' \<rparr>" and key = "''absent''" and J = null_stream] h1
  have a: "Cache_get null_stream cache_fs \<lparr> dir = ''c'' \<rparr> ''absent'' = Inr []" by blast
  from Cache_get_missing_or_failing
    [where fs = cache_fs and this = "\<lparr> dir = ''c'' \<rparr>" and key = "''locked''" and J = null_stream
      and d = "[]" and err = "SystemError ''EACCES''"] h2 h2'
  have b: "isl (Cache_get null_stream cache_fs \<lparr> dir = ''c'' \<rparr> ''locked'')" by blast
  from Cache_get_missing_or_failing
    [where fs = cache_fs and this = "\<lparr> dir = ''c'' \<rparr>" and key = "''broken''" and J = null_stream
      and d = "''x''" and rerr = None and items = "[]" and perr = InvalidJSON] h3 h3'
  have c: "Cache_get null_stream cache_fs \<lparr> dir = ''c'' \<rparr> ''broken'' = Inl InvalidJSON" by blast
  from h1 h2 h2' h3 h3' a b c show ?thesis by blast
qed

text \<open>
  Claim C10: on a platform other than Windows, \<^verbatim>\<open>uriToPath(pathToUri(p)) = p\<close> for
  every non-empty path \<open>p\<close> that starts with one \<^verbatim>\<open>/\<close>, not two, and holds only
  characters that \<^verbatim>\<open>encodeURI\<close> and \<^verbatim>\<open>decodeURI\<close> leave unchanged; and \<^verbatim>\<open>pathToUri\<close>
  of a relative path is the empty string. \<^verbatim>\<open>uriToPath\<close> takes a leading \<^verbatim>\<open>/\<close> before
  a letter and a colon for the slash before a drive and drops it: the path
  \<^verbatim>\<open>/c:/w\<close>, whose characters both built-ins keep, comes back as \<^verbatim>\<open>c:/w\<close>.
\<close>

theorem uri_roundtrip_drive_counterexample:
  "\<not> isWindows posix_host \<and> ''/c:/w'' \<noteq> [] \<and> prefix ''/'' ''/c:/w'' \<and> \<not> prefix ''//'' ''/c:/w''
   \<and> list_all uri_unescaped ''/c:/w''
   \<and> encodeURI posix_host ''/c:/w'' = ''/c:/w'' \<and> decodeURI posix_host ''/c:/w'' = Inr ''/c:/w''
   \<and> pathToUri posix_host ''/c:/w'' = ''file:///c:/w''
   \<and> uri_roundtrip posix_host ''/c:/w'' = Inr ''c:/w''
   \<and> uri_roundtrip posix_host ''/c:/w'' \<noteq> Inr ''/c:/w''"
  by (simp add: uri_eval)

text \<open>
  Claim C10, amended: on a platform other than Windows, \<^verbatim>\<open>uriToPath(pathToUri(p)) = p\<close>
  for every non-empty path \<open>p\<close> that starts with one \<^verbatim>\<open>/\<close>, not two, does not start
  with \<^verbatim>\<open>/\<close>, a letter and a colon, and for which \<^verbatim>\<open>decodeURI\<close> undoes \<^verbatim>\<open>encodeURI\<close> on
  \<^verbatim>\<open>file://\<close> followed by \<open>p\<close>; and \<^verbatim>\<open>pathToUri\<close> of a path that starts neither with
  \<^verbatim>\<open>/\<close> nor with a letter and a colon is the empty string.
\<close>

theorem uri_roundtrip_rooted_path:
  assumes "\<not> isWindows P"
  shows "(p \<noteq> [] \<and> prefix ''/'' p \<and> \<not> prefix ''//'' p \<and> \<not> SLASH_DRIVE_PATTERN p
          \<and> decodeURI P (encodeURI P (''file://'' @ p)) = Inr (''file://'' @ p)
          \<longrightarrow> uri_roundtrip P p = Inr p)
       \<and> (\<not> prefix ''/'' p \<and> \<not> DRIVE_PATTERN p \<longrightarrow> pathToUri P p = [])"
proof (intro conjI impI)
  assume h: "p \<noteq> [] \<and> prefix ''/'' p \<and> \<not> prefix ''//'' p \<and> \<not> SLASH_DRIVE_PATTERN p
          \<and> decodeURI P (encodeURI P (''file://'' @ p)) = Inr (''file://'' @ p)"
  then obtain rest where p: "p = CHR ''/'' # rest" by (cases p) auto
  with h have r: "\<not> prefix ''/'' rest" by auto
  have "pathToUri P p = encodeURI P (''file://'' @ p)"
    using pathToUri_rooted [OF assms p r] .
  moreover have "uriToPath P (encodeURI P (''file://'' @ p)) = Inr p"
    using uriToPath_rooted [OF assms, of "encodeURI P (''file://'' @ p)" rest] h p by simp
  ultimately show "uri_roundtrip P p = Inr p" by (simp add: uri_roundtrip_def)
next
  assume "\<not> prefix ''/'' p \<and> \<not> DRIVE_PATTERN p"
  then show "pathToUri P p = []" using pathToUri_relative [OF assms] by blast
qed

text \<open>A path with a space, which \<^verbatim>\<open>encodeURI\<close> escapes, and a relative path.\<close>

theorem uri_roundtrip_rooted_path_witness:
  "\<not> isWindows posix_host
   \<and> ''/home/u/a b.php'' \<noteq> [] \<and> prefix ''/'' ''/home/u/a b.php'' \<and> \<not> prefix ''//'' ''/home/u/a b.php''
   \<and> \<not> SLASH_DRIVE_PATTERN ''/home/u/a b.php''
   \<and> pathToUri posix_host ''/home/u/a b.php'' = ''file:///home/u/a%20b.php''
   \<and> decodeURI posix_host (encodeURI posix_host (''file://'' @ ''/home/u/a b.php''))
       = Inr (''file://'' @ ''/home/u/a b.php'')
   \<and> uri_roundtrip posix_host ''/home/u/a b.php'' = Inr ''/home/u/a b.php''
   \<and> \<not> prefix ''/'' ''src/a.php'' \<and> \<not> DRIVE_PATTERN ''src/a.php''
   \<and> pathToUri posix_host ''src/a.php'' = []"
proof -
  have w: "\<not> isWindows posix_host" by (simp add: posix_host_def)
  have g1: "''/home/u/a b.php'' \<noteq> []" and g2: "prefix ''/'' ''/home/u/a b.php''"
    and g3: "\<not> prefix ''//'' ''/home/u/a b.php''" and g4: "\<not> prefix ''/'' ''src/a.php''"
    by simp_all
  have h1: "decodeURI posix_host (encodeURI posix_host (''file://'' @ ''/home/u/a b.php''))
              = Inr (''file://'' @ ''/home/u/a b.php'')"
    unfolding posix_host_def by (simp only: platform.select_convs decodeURI_encodeURI_model)
  have h2: "\<not> SLASH_DRIVE_PATTERN ''/home/u/a b.php''" by (simp add: is_ascii_letter_def)
  have h3: "\<not> DRIVE_PATTERN ''src/a.php''" by simp
  have h4: "pathToUri posix_host ''/home/u/a b.php'' = ''file:///home/u/a%20b.php''"
    by (simp add: uri_eval)
  from uri_roundtrip_rooted_path [OF w, of "''/home/u/a b.php''"] g1 g2 g3 h1 h2
  have a: "uri_roundtrip posix_host ''/home/u/a b.php'' = Inr ''/home/u/a b.php''" by blast
  from uri_roundtrip_rooted_path [OF w, of "''src/a.php''"] g4 h3
  have b: "pathToUri posix_host ''src/a.php'' = []" by blast
  from w g1 g2 g3 g4 h1 h2 h3 h4 a b show ?thesis by blast
qed

end
